theory Spec2Isabelle
  imports Main "HOL-Library.Word"
begin

unbundle bit_operations_syntax

section \<open>The HMAC-SHA1 authentication function of libsrtp (crypto/hash/hmac\_ossl.c)\<close>

text \<open>
  The file \<^verbatim>\<open>hmac_ossl.c\<close> implements the \<^verbatim>\<open>srtp_auth_type_t\<close> interface on top of the
  HMAC engine of a cryptographic library. The adapter functions
  (\<^verbatim>\<open>srtp_hmac_alloc\<close>, \<^verbatim>\<open>srtp_hmac_dealloc\<close>, \<^verbatim>\<open>srtp_hmac_start\<close>, \<^verbatim>\<open>srtp_hmac_init\<close>,
  \<^verbatim>\<open>srtp_hmac_update\<close>, \<^verbatim>\<open>srtp_hmac_compute\<close>) are embedded from the source, statement by
  statement. The engine they call (\<^verbatim>\<open>HMAC_CTX_new\<close>, \<^verbatim>\<open>HMAC_Init_ex\<close>, \<^verbatim>\<open>HMAC_Update\<close>,
  \<^verbatim>\<open>HMAC_Final\<close>, \<^verbatim>\<open>HMAC_CTX_free\<close>) and the allocator (\<^verbatim>\<open>srtp_crypto_alloc\<close>,
  \<^verbatim>\<open>srtp_crypto_free\<close>, \<^verbatim>\<open>octet_string_set_to_zero\<close>) are not part of the file; they are
  modelled from the contract the specification gives for them, and marked as such.

  Conventions of the embedding:
  \<^item> a C \<^verbatim>\<open>int\<close> and an \<^verbatim>\<open>unsigned int\<close> are 32-bit words; an \<^verbatim>\<open>int\<close> is read with \<open>sint\<close>
    wherever the source compares or counts with it, and a comparison between an
    \<^verbatim>\<open>unsigned int\<close> and an \<^verbatim>\<open>int\<close> is the unsigned order of words (the usual arithmetic
    conversions reinterpret the signed operand);
  \<^item> an input buffer given as pointer and length (\<^verbatim>\<open>key, key_len\<close> and
    \<^verbatim>\<open>message, msg_octets\<close>) is the list of the bytes it holds;
  \<^item> the output buffer \<^verbatim>\<open>result\<close> is the memory from that pointer onwards, a function
    from the offset to the byte stored there: the source never learns its size;
  \<^item> a pointer is an address, or \<open>None\<close> for \<^verbatim>\<open>NULL\<close>;
  \<^item> every function returns its status together with the state it leaves behind;
  \<^item> the calls to \<^verbatim>\<open>debug_print\<close> have no effect on any of this and are left out.
\<close>

type_synonym u8 = "8 word"
type_synonym u32 = "32 word"
type_synonym c_int = "32 word"
type_synonym c_uint = "32 word"
type_synonym addr = nat
type_synonym buffer = "nat \<Rightarrow> u8"

subsection \<open>SHA-1 and HMAC, the function the engine computes\<close>

text \<open>
  The engine is outside the file. The specification fixes what it computes as standard
  HMAC-SHA1 and gives a vector of RFC 2202 as its known-answer test; the definitions of
  this subsection write that function out, SHA-1 as in FIPS 180 and HMAC as in RFC 2104.
\<close>

type_synonym sha1_state = "u32 \<times> u32 \<times> u32 \<times> u32 \<times> u32"

text \<open>Modelled from the spec: SHA-1 of the engine, rotation of a word to the left.\<close>

definition rotl :: "nat \<Rightarrow> u32 \<Rightarrow> u32" where
  "rotl n x = push_bit n x OR drop_bit (32 - n) x"

text \<open>Modelled from the spec: SHA-1 of the engine, a big-endian word from its bytes.\<close>

definition be32 :: "u8 list \<Rightarrow> u32" where
  "be32 bs = foldl (\<lambda>acc b. push_bit 8 acc OR ucast b) 0 bs"

text \<open>Modelled from the spec: SHA-1 of the engine, the first \<open>n\<close> words of a block.\<close>

fun words_of :: "nat \<Rightarrow> u8 list \<Rightarrow> u32 list" where
  "words_of 0 bs = []"
| "words_of (Suc n) bs = be32 (take 4 bs) # words_of n (drop 4 bs)"

text \<open>Modelled from the spec: SHA-1 of the engine, the four bytes of a word.\<close>

definition bytes_of_u32 :: "u32 \<Rightarrow> u8 list" where
  "bytes_of_u32 w = [ucast (drop_bit 24 w), ucast (drop_bit 16 w), ucast (drop_bit 8 w), ucast w]"

text \<open>Modelled from the spec: SHA-1 of the engine, the eight bytes of the bit length.\<close>

definition bytes_of_u64 :: "64 word \<Rightarrow> u8 list" where
  "bytes_of_u64 w = map (\<lambda>i. ucast (drop_bit (8 * i) w)) [7, 6, 5, 4, 3, 2, 1, 0]"

text \<open>Modelled from the spec: SHA-1 of the engine, the round function.\<close>

definition sha1_f :: "nat \<Rightarrow> u32 \<Rightarrow> u32 \<Rightarrow> u32 \<Rightarrow> u32" where
  "sha1_f t b c d =
     (if t < 20 then (b AND c) OR (NOT b AND d)
      else if t < 40 then b XOR c XOR d
      else if t < 60 then (b AND c) OR (b AND d) OR (c AND d)
      else b XOR c XOR d)"

text \<open>Modelled from the spec: SHA-1 of the engine, the round constant.\<close>

definition sha1_k :: "nat \<Rightarrow> u32" where
  "sha1_k t =
     (if t < 20 then 0x5A827999 else if t < 40 then 0x6ED9EBA1
      else if t < 60 then 0x8F1BBCDC else 0xCA62C1D6)"

text \<open>
  Modelled from the spec: SHA-1 of the engine, round \<open>t\<close>. The message schedule is kept
  as a window of sixteen words: at round \<open>t\<close> the window holds \<open>W t, ..., W (t + 15)\<close>, and
  the round appends \<open>W (t + 16)\<close>.
\<close>

fun sha1_round :: "nat \<Rightarrow> u32 list \<times> sha1_state \<Rightarrow> u32 list \<times> sha1_state" where
  "sha1_round t (w, (a, b, c, d, e)) =
     (tl w @ [rotl 1 (w ! 13 XOR w ! 8 XOR w ! 2 XOR w ! 0)],
      (rotl 5 a + sha1_f t b c d + e + sha1_k t + hd w, a, rotl 30 b, c, d))"

text \<open>Modelled from the spec: SHA-1 of the engine, \<open>n\<close> rounds from round \<open>t\<close> on.\<close>

fun sha1_rounds :: "nat \<Rightarrow> nat \<Rightarrow> u32 list \<times> sha1_state \<Rightarrow> u32 list \<times> sha1_state" where
  "sha1_rounds 0 t ws = ws"
| "sha1_rounds (Suc n) t ws = sha1_rounds n (Suc t) (sha1_round t ws)"

text \<open>Modelled from the spec: SHA-1 of the engine, word-wise sum of two states.\<close>

fun sha1_add :: "sha1_state \<Rightarrow> sha1_state \<Rightarrow> sha1_state" where
  "sha1_add (a, b, c, d, e) (a', b', c', d', e') = (a + a', b + b', c + c', d + d', e + e')"

text \<open>Modelled from the spec: SHA-1 of the engine, the compression of one 64-byte block.\<close>

definition sha1_block :: "sha1_state \<Rightarrow> u8 list \<Rightarrow> sha1_state" where
  "sha1_block h blk = sha1_add h (snd (sha1_rounds 80 0 (words_of 16 blk, h)))"

text \<open>Modelled from the spec: SHA-1 of the engine, the padding of a message.\<close>

definition sha1_pad :: "u8 list \<Rightarrow> u8 list" where
  "sha1_pad m =
     m @ [0x80] @ replicate ((119 - length m mod 64) mod 64) 0
       @ bytes_of_u64 (word_of_nat (length m) * 8)"

text \<open>Modelled from the spec: SHA-1 of the engine, the compression of \<open>n\<close> blocks.\<close>

fun sha1_blocks :: "nat \<Rightarrow> sha1_state \<Rightarrow> u8 list \<Rightarrow> sha1_state" where
  "sha1_blocks 0 h bs = h"
| "sha1_blocks (Suc n) h bs = sha1_blocks n (sha1_block h (take 64 bs)) (drop 64 bs)"

text \<open>Modelled from the spec: SHA-1 of the engine, the initial state.\<close>

definition sha1_init :: sha1_state where
  "sha1_init = (0x67452301, 0xEFCDAB89, 0x98BADCFE, 0x10325476, 0xC3D2E1F0)"

text \<open>Modelled from the spec: SHA-1 of the engine, the twenty bytes of a state.\<close>

fun sha1_output :: "sha1_state \<Rightarrow> u8 list" where
  "sha1_output (a, b, c, d, e) =
     bytes_of_u32 a @ bytes_of_u32 b @ bytes_of_u32 c @ bytes_of_u32 d @ bytes_of_u32 e"

text \<open>Modelled from the spec: SHA-1 of the engine, the digest of a message.\<close>

definition sha1 :: "u8 list \<Rightarrow> u8 list" where
  "sha1 m = (let p = sha1_pad m in sha1_output (sha1_blocks (length p div 64) sha1_init p))"

text \<open>
  Modelled from the spec: the key schedule of the engine, the 64-byte key block of
  HMAC (a key longer than a block is hashed first, then the key is filled with zeros).
\<close>

definition hmac_key_block :: "u8 list \<Rightarrow> u8 list" where
  "hmac_key_block k =
     (let k' = (if 64 < length k then sha1 k else k) in k' @ replicate (64 - length k') 0)"

text \<open>
  Modelled from the spec: the native digest of the engine for a key block and the
  bytes absorbed.
\<close>

definition hmac_digest :: "u8 list \<Rightarrow> u8 list \<Rightarrow> u8 list" where
  "hmac_digest k0 m =
     sha1 (map (\<lambda>b. b XOR 0x5c) k0 @ sha1 (map (\<lambda>b. b XOR 0x36) k0 @ m))"

text \<open>Modelled from the spec: HMAC-SHA1 of a message under a key, in one piece.\<close>

definition hmac_sha1 :: "u8 list \<Rightarrow> u8 list \<Rightarrow> u8 list" where
  "hmac_sha1 k m = hmac_digest (hmac_key_block k) m"

subsection \<open>The engine handle\<close>

text \<open>
  The engine handle \<^verbatim>\<open>HMAC_CTX\<close> and the engine calls belong to the cryptographic library
  and are not in \<^verbatim>\<open>hmac_ossl.c\<close>. The specification describes the handle as key schedule
  plus running hash state, and the calls as: create computation state; reset computation
  state with key bound; reset computation state with existing key; absorb bytes;
  finalize to native digest and length; destroy state. A call returns 1 on success and 0
  on failure, as the source tests it.
\<close>

text \<open>
  Modelled from the spec: the engine handle. It records the bound key as its key block
  (\<open>None\<close> for a fresh, key-less handle), the bytes absorbed since the last reset, and
  whether the running computation has been finalized (a new reset is then required
  before reuse).
\<close>

record HMAC_CTX =
  key_block :: "u8 list option"
  absorbed :: "u8 list"
  finalized :: bool

text \<open>Modelled from the spec: the digests the engine offers; the file uses \<^verbatim>\<open>EVP_sha1()\<close>.\<close>

datatype EVP_MD = EVP_sha1

text \<open>Modelled from the spec: a fresh, key-less handle, as the engine creates it.\<close>

definition HMAC_CTX_fresh :: HMAC_CTX where
  "HMAC_CTX_fresh = \<lparr>key_block = None, absorbed = [], finalized = False\<rparr>"

text \<open>
  Modelled from the spec: \<^verbatim>\<open>HMAC_Init_ex(ctx, key, len, md, NULL)\<close>. With a key it is
  ``reset computation state with key bound''; with \<^verbatim>\<open>key = NULL\<close> it is ``reset
  computation state with existing key'', which fails on a key-less handle. It also
  fails when neither the call nor the handle names a digest.
\<close>

definition HMAC_Init_ex :: "HMAC_CTX \<Rightarrow> u8 list option \<Rightarrow> EVP_MD option \<Rightarrow> int \<times> HMAC_CTX" where
  "HMAC_Init_ex ctx key md =
     (case key of
        Some k \<Rightarrow>
          (if md = None \<and> key_block ctx = None then (0, ctx)
           else (1, \<lparr>key_block = Some (hmac_key_block k), absorbed = [], finalized = False\<rparr>))
      | None \<Rightarrow>
          (if key_block ctx = None then (0, ctx)
           else (1, ctx\<lparr>absorbed := [], finalized := False\<rparr>)))"

text \<open>
  Modelled from the spec: \<^verbatim>\<open>HMAC_Update(ctx, data, len)\<close>, ``absorb bytes''. The bytes
  are incorporated in call order; the call fails on a key-less handle and on a
  finalized computation.
\<close>

definition HMAC_Update :: "HMAC_CTX \<Rightarrow> u8 list \<Rightarrow> int \<times> HMAC_CTX" where
  "HMAC_Update ctx data =
     (if key_block ctx = None \<or> finalized ctx then (0, ctx)
      else (1, ctx\<lparr>absorbed := absorbed ctx @ data\<rparr>))"

text \<open>
  Modelled from the spec: \<^verbatim>\<open>HMAC_Final(ctx, md, &len)\<close>, ``finalize to native digest and
  length''. It returns its status, the handle, the bytes it stored into the digest
  buffer and the length it stored into \<^verbatim>\<open>len\<close>, which is the native size of SHA-1.
\<close>

definition HMAC_Final :: "HMAC_CTX \<Rightarrow> int \<times> HMAC_CTX \<times> u8 list \<times> c_uint" where
  "HMAC_Final ctx =
     (case key_block ctx of
        None \<Rightarrow> (0, ctx, [], 0)
      | Some k0 \<Rightarrow>
          (if finalized ctx then (0, ctx, [], 0)
           else (1, ctx\<lparr>finalized := True\<rparr>, hmac_digest k0 (absorbed ctx), 20)))"

subsection \<open>Status codes and the context record\<close>

text \<open>The four status codes of \<^verbatim>\<open>srtp_err_status_t\<close> that the file returns.\<close>

datatype srtp_err_status_t =
  srtp_err_status_ok
| srtp_err_status_bad_param
| srtp_err_status_alloc_fail
| srtp_err_status_auth_fail

definition SHA1_DIGEST_SIZE :: c_int where
  "SHA1_DIGEST_SIZE = 20"

text \<open>The function table of the file, \<^verbatim>\<open>srtp_hmac\<close>, as the target of a pointer.\<close>

datatype srtp_auth_type_t = srtp_hmac

text \<open>
  \<^verbatim>\<open>srtp_auth_t\<close>, with the five fields the file assigns: the pointer to the function
  table (\<^verbatim>\<open>type\<close> in the source), the pointer to the engine handle, and three \<^verbatim>\<open>int\<close>s.
\<close>

record srtp_auth_t =
  auth_type :: "srtp_auth_type_t option"
  state :: "addr option"
  out_len :: c_int
  key_len :: c_int
  prefix_len :: c_int

subsection \<open>Memory\<close>

text \<open>
  The memory allocation routines \<^verbatim>\<open>srtp_crypto_alloc\<close>, \<^verbatim>\<open>srtp_crypto_free\<close> and
  \<^verbatim>\<open>octet_string_set_to_zero\<close>, and the creation and destruction of engine handles, are
  not in \<^verbatim>\<open>hmac_ossl.c\<close>. Memory is a store: the \<^verbatim>\<open>srtp_auth_t\<close> blocks that are
  allocated, with their contents; the contents a released block was left with; the live
  engine handles; the contents a destroyed engine handle was left with; and, for each of
  the two allocators, the addresses it can still hand out. An allocator with nothing left
  returns \<^verbatim>\<open>NULL\<close>.
\<close>

record memory =
  auth_avail :: "addr list"
  auth_live :: "addr \<rightharpoonup> srtp_auth_t"
  auth_released :: "addr \<rightharpoonup> srtp_auth_t"
  ctx_avail :: "addr list"
  ctx_live :: "addr \<rightharpoonup> HMAC_CTX"
  ctx_released :: "addr \<rightharpoonup> HMAC_CTX"

text \<open>An \<^verbatim>\<open>srtp_auth_t\<close> whose bytes are all zero.\<close>

definition zero_auth :: srtp_auth_t where
  "zero_auth = \<lparr>auth_type = None, state = None, out_len = 0, key_len = 0, prefix_len = 0\<rparr>"

text \<open>
  Modelled from the spec: \<^verbatim>\<open>srtp_crypto_alloc(sizeof(srtp_auth_t))\<close>, which returns a new
  block, or \<^verbatim>\<open>NULL\<close> when memory is exhausted.
\<close>

definition srtp_crypto_alloc :: "memory \<Rightarrow> addr option \<times> memory" where
  "srtp_crypto_alloc m =
     (case auth_avail m of
        [] \<Rightarrow> (None, m)
      | p # ps \<Rightarrow> (Some p, m\<lparr>auth_avail := ps, auth_live := (auth_live m)(p \<mapsto> zero_auth)\<rparr>))"

text \<open>
  Modelled from the spec: \<^verbatim>\<open>srtp_crypto_free(p)\<close>, which releases the block; the block
  keeps the contents it had.
\<close>

definition srtp_crypto_free :: "memory \<Rightarrow> addr \<Rightarrow> memory" where
  "srtp_crypto_free m p =
     m\<lparr>auth_avail := p # auth_avail m,
       auth_live := (auth_live m)(p := None),
       auth_released := (auth_released m)(p := auth_live m p)\<rparr>"


text \<open>
  Modelled from the spec: \<^verbatim>\<open>HMAC_CTX_new()\<close>, ``create computation state'': a fresh,
  key-less handle, or \<^verbatim>\<open>NULL\<close> when none can be created.
\<close>

definition HMAC_CTX_new :: "memory \<Rightarrow> addr option \<times> memory" where
  "HMAC_CTX_new m =
     (case ctx_avail m of
        [] \<Rightarrow> (None, m)
      | c # cs \<Rightarrow> (Some c, m\<lparr>ctx_avail := cs, ctx_live := (ctx_live m)(c \<mapsto> HMAC_CTX_fresh)\<rparr>))"


text \<open>An assignment to fields of the allocated \<^verbatim>\<open>srtp_auth_t\<close> at \<open>p\<close>.\<close>

definition auth_store :: "memory \<Rightarrow> addr \<Rightarrow> (srtp_auth_t \<Rightarrow> srtp_auth_t) \<Rightarrow> memory" where
  "auth_store m p f = m\<lparr>auth_live := (auth_live m)(p := map_option f (auth_live m p))\<rparr>"

subsection \<open>The adapter functions, from the source\<close>

text \<open>
  \<^verbatim>\<open>srtp_hmac_alloc(a, key_len, out_len)\<close>. The argument \<open>a\<close> is the value of \<^verbatim>\<open>*a\<close> on
  entry and the third component of the result is its value on return.
\<close>

definition srtp_hmac_alloc ::
  "memory \<Rightarrow> addr option \<Rightarrow> c_int \<Rightarrow> c_int \<Rightarrow> srtp_err_status_t \<times> memory \<times> addr option" where
  "srtp_hmac_alloc m a key_len' out_len' =
     (if sint SHA1_DIGEST_SIZE < sint out_len' then (srtp_err_status_bad_param, m, a)
      else
        (case srtp_crypto_alloc m of
           (None, m1) \<Rightarrow> (srtp_err_status_alloc_fail, m1, None)
         | (Some p, m1) \<Rightarrow>
             (case HMAC_CTX_new m1 of
                (hmac_ctx, m2) \<Rightarrow>
                  (let m3 = auth_store m2 p (\<lambda>r. r\<lparr>state := hmac_ctx\<rparr>) in
                   if hmac_ctx = None
                   then (srtp_err_status_alloc_fail, srtp_crypto_free m3 p, None)
                   else
                     (srtp_err_status_ok,
                      auth_store m3 p
                        (\<lambda>r. r\<lparr>auth_type := Some srtp_hmac, out_len := out_len',
                               key_len := key_len', prefix_len := 0\<rparr>),
                      Some p)))))"


text \<open>\<^verbatim>\<open>srtp_hmac_start(statev)\<close>: the engine call has neither key nor digest.\<close>

definition srtp_hmac_start :: "HMAC_CTX \<Rightarrow> srtp_err_status_t \<times> HMAC_CTX" where
  "srtp_hmac_start statev =
     (case HMAC_Init_ex statev None None of
        (r, state') \<Rightarrow>
          if r = 0 then (srtp_err_status_auth_fail, state') else (srtp_err_status_ok, state'))"

text \<open>\<^verbatim>\<open>srtp_hmac_init(statev, key, key_len)\<close>.\<close>

definition srtp_hmac_init :: "HMAC_CTX \<Rightarrow> u8 list \<Rightarrow> srtp_err_status_t \<times> HMAC_CTX" where
  "srtp_hmac_init statev key =
     (case HMAC_Init_ex statev (Some key) (Some EVP_sha1) of
        (r, state') \<Rightarrow>
          if r = 0 then (srtp_err_status_auth_fail, state') else (srtp_err_status_ok, state'))"

text \<open>\<^verbatim>\<open>srtp_hmac_update(statev, message, msg_octets)\<close>.\<close>

definition srtp_hmac_update :: "HMAC_CTX \<Rightarrow> u8 list \<Rightarrow> srtp_err_status_t \<times> HMAC_CTX" where
  "srtp_hmac_update statev message =
     (case HMAC_Update statev message of
        (r, state') \<Rightarrow>
          if r = 0 then (srtp_err_status_auth_fail, state') else (srtp_err_status_ok, state'))"

text \<open>
  The copy loop of \<^verbatim>\<open>srtp_hmac_compute\<close>:
  \<^verbatim>\<open>for (i = 0; i < tag_len; i++) result[i] = hash_value[i];\<close>
  with the \<^verbatim>\<open>int\<close>s \<open>i\<close> and \<open>tag_len\<close> as their values. The loop is entered with
  \<open>tag_len \<le> 20\<close>, so \<open>i\<close> stays far from overflow.
\<close>

function copy_hash_value :: "int \<Rightarrow> int \<Rightarrow> u8 list \<Rightarrow> buffer \<Rightarrow> buffer" where
  "copy_hash_value i tag_len hash_value result =
     (if i < tag_len
      then copy_hash_value (i + 1) tag_len hash_value (result(nat i := hash_value ! nat i))
      else result)"
  by pat_completeness auto
termination
  by (relation "measure (\<lambda>(i, tag_len, hash_value, result). nat (tag_len - i))") auto

text \<open>
  \<^verbatim>\<open>srtp_hmac_compute(statev, message, msg_octets, tag_len, result)\<close>. The local array
  \<^verbatim>\<open>hash_value\<close> holds what \<^verbatim>\<open>HMAC_Final\<close> stored into it; \<^verbatim>\<open>len < tag_len\<close> compares an
  \<^verbatim>\<open>unsigned int\<close> with an \<^verbatim>\<open>int\<close> and is the unsigned order of words.
\<close>

definition srtp_hmac_compute ::
  "HMAC_CTX \<Rightarrow> u8 list \<Rightarrow> c_int \<Rightarrow> buffer \<Rightarrow> srtp_err_status_t \<times> HMAC_CTX \<times> buffer" where
  "srtp_hmac_compute statev message tag_len result =
     (if sint SHA1_DIGEST_SIZE < sint tag_len then (srtp_err_status_bad_param, statev, result)
      else
        (case HMAC_Update statev message of
           (r1, state1) \<Rightarrow>
             if r1 = 0 then (srtp_err_status_auth_fail, state1, result)
             else
               (case HMAC_Final state1 of
                  (r2, state2, hash_value, len) \<Rightarrow>
                    if r2 = 0 then (srtp_err_status_auth_fail, state2, result)
                    else if len < tag_len then (srtp_err_status_auth_fail, state2, result)
                    else
                      (srtp_err_status_ok, state2,
                       copy_hash_value 0 (sint tag_len) hash_value result))))"

subsection \<open>Callers\<close>

text \<open>
  A caller that feeds a message in segments: one \<^verbatim>\<open>srtp_hmac_update\<close> per segment, in
  order, stopping at the first call that does not return \<^verbatim>\<open>srtp_err_status_ok\<close>.
\<close>

fun srtp_hmac_update_all :: "HMAC_CTX \<Rightarrow> u8 list list \<Rightarrow> srtp_err_status_t \<times> HMAC_CTX" where
  "srtp_hmac_update_all statev [] = (srtp_err_status_ok, statev)"
| "srtp_hmac_update_all statev (seg # segs) =
     (case srtp_hmac_update statev seg of
        (status, state') \<Rightarrow>
          if status = srtp_err_status_ok then srtp_hmac_update_all state' segs
          else (status, state'))"

text \<open>
  The calls on a handle other than \<^verbatim>\<open>srtp_hmac_init\<close>, and the handle each leaves behind.
  The handle after \<^verbatim>\<open>srtp_hmac_compute\<close> does not depend on the result buffer.
\<close>

datatype auth_call = Start | Update "u8 list" | Compute "u8 list" c_int

fun after_call :: "HMAC_CTX \<Rightarrow> auth_call \<Rightarrow> HMAC_CTX" where
  "after_call statev Start = snd (srtp_hmac_start statev)"
| "after_call statev (Update message) = snd (srtp_hmac_update statev message)"
| "after_call statev (Compute message tag_len) =
     fst (snd (srtp_hmac_compute statev message tag_len (\<lambda>i. 0)))"

text \<open>
  The known-answer test of the specification (RFC 2202, test case 1): the key is twenty
  bytes \<open>0x0b\<close>, the message is the ASCII text \<^verbatim>\<open>Hi There\<close>.
\<close>

definition kat_key :: "u8 list" where
  "kat_key = replicate 20 0x0b"

definition kat_message :: "u8 list" where
  "kat_message = [0x48, 0x69, 0x20, 0x54, 0x68, 0x65, 0x72, 0x65]"

definition kat_digest :: "u8 list" where
  "kat_digest =
     [0xb6, 0x17, 0x31, 0x86, 0x55, 0x05, 0x72, 0x64, 0xe2, 0x8b,
      0xc0, 0xb6, 0xfb, 0x37, 0x8c, 0x8e, 0xf1, 0x46, 0xbe, 0x00]"

section \<open>Facts about the model\<close>

declare copy_hash_value.simps [simp del]

text \<open>The copy loop started at \<open>i\<close> stores \<open>hash_value[j]\<close> at every \<open>i \<le> j < tag_len\<close>.\<close>

lemma copy_hash_value_at:
  "0 \<le> i \<Longrightarrow>
     copy_hash_value i tag_len hash_value result j =
       (if i \<le> int j \<and> int j < tag_len then hash_value ! j else result j)"
proof (induction i tag_len hash_value result rule: copy_hash_value.induct)
  case (1 i tag_len hash_value result)
  show ?case
  proof (cases "i < tag_len")
    case True
    have next_ok: "0 \<le> i + 1"
      using "1.prems" by simp
    have "copy_hash_value i tag_len hash_value result j =
          copy_hash_value (i + 1) tag_len hash_value (result(nat i := hash_value ! nat i)) j"
      using True by (subst copy_hash_value.simps) simp
    also have "\<dots> = (if i + 1 \<le> int j \<and> int j < tag_len then hash_value ! j
                      else (result(nat i := hash_value ! nat i)) j)"
      by (rule "1.IH" [OF True next_ok])
    also have "\<dots> = (if i \<le> int j \<and> int j < tag_len then hash_value ! j else result j)"
      using True "1.prems" by (cases "j = nat i") auto
    finally show ?thesis .
  next
    case False
    then show ?thesis by (subst copy_hash_value.simps) auto
  qed
qed

lemma copied_prefix:
  assumes "0 \<le> tag_len" and "nat tag_len \<le> length hash_value"
  shows "map (copy_hash_value 0 tag_len hash_value result) [0..<nat tag_len] =
           take (nat tag_len) hash_value"
proof (rule nth_equalityI)
  show "length (map (copy_hash_value 0 tag_len hash_value result) [0..<nat tag_len]) =
          length (take (nat tag_len) hash_value)"
    using assms by simp
next
  fix j
  assume "j < length (map (copy_hash_value 0 tag_len hash_value result) [0..<nat tag_len])"
  then have "int j < tag_len"
    by simp
  then show "map (copy_hash_value 0 tag_len hash_value result) [0..<nat tag_len] ! j =
               take (nat tag_len) hash_value ! j"
    by (simp add: copy_hash_value_at)
qed

text \<open>A C \<^verbatim>\<open>int\<close> read as \<^verbatim>\<open>unsigned int\<close>.\<close>

lemma uint_by_sint:
  "uint (w :: 32 word) = (if sint w < 0 then sint w + 2 ^ 32 else sint w)"
proof -
  have red: "uint w = sint w mod 2 ^ 32"
    by (simp add: uint_sint take_bit_eq_mod)
  have lo: "- (2 ^ 31) \<le> sint w"
    using sint_ge [of w] by simp
  have hi: "sint w < 2 ^ 31"
    using sint_lt [of w] by simp
  show ?thesis
  proof (cases "sint w < 0")
    case True
    have "sint w mod 2 ^ 32 = (sint w + 2 ^ 32) mod 2 ^ 32"
      by simp
    also have "\<dots> = sint w + 2 ^ 32"
      using True lo by (intro mod_pos_pos_trivial) simp_all
    finally show ?thesis
      using True red by simp
  next
    case False
    then have "sint w mod 2 ^ 32 = sint w"
      using hi by (intro mod_pos_pos_trivial) simp_all
    then show ?thesis
      using False red by simp
  qed
qed

lemma negative_int_as_unsigned: "sint (w :: 32 word) < 0 \<Longrightarrow> (20 :: 32 word) < w"
proof -
  assume neg: "sint w < 0"
  have "- (2 ^ 31) \<le> sint w"
    using sint_ge [of w] by simp
  then have "20 < uint w"
    using neg by (simp add: uint_by_sint)
  then show ?thesis
    by (simp add: word_less_def)
qed

lemma small_int_as_unsigned:
  "0 \<le> sint (w :: 32 word) \<Longrightarrow> sint w \<le> 20 \<Longrightarrow> \<not> (20 :: 32 word) < w"
  by (simp add: word_less_def uint_by_sint)

text \<open>The digest of the engine has the native size of SHA-1, twenty bytes.\<close>

lemma length_sha1: "length (sha1 m) = 20"
  by (cases "sha1_blocks (length (sha1_pad m) div 64) sha1_init (sha1_pad m)")
     (simp add: sha1_def Let_def bytes_of_u32_def)

lemma length_hmac_digest: "length (hmac_digest k0 m) = 20"
  by (simp add: hmac_digest_def length_sha1)

text \<open>The paths of \<^verbatim>\<open>srtp_hmac_compute\<close>, with the engine calls resolved.\<close>

lemma compute_cases:
  "srtp_hmac_compute statev message tag_len result =
     (if 20 < sint tag_len then (srtp_err_status_bad_param, statev, result)
      else if key_block statev = None \<or> finalized statev
        then (srtp_err_status_auth_fail, statev, result)
      else if 20 < tag_len
        then (srtp_err_status_auth_fail,
              statev\<lparr>absorbed := absorbed statev @ message, finalized := True\<rparr>, result)
      else (srtp_err_status_ok,
            statev\<lparr>absorbed := absorbed statev @ message, finalized := True\<rparr>,
            copy_hash_value 0 (sint tag_len)
              (hmac_digest (the (key_block statev)) (absorbed statev @ message)) result))"
  by (auto simp add: srtp_hmac_compute_def SHA1_DIGEST_SIZE_def HMAC_Update_def HMAC_Final_def)

lemma update_all_started:
  "key_block statev = Some k0 \<Longrightarrow> \<not> finalized statev \<Longrightarrow>
     srtp_hmac_update_all statev segs =
       (srtp_err_status_ok, statev\<lparr>absorbed := absorbed statev @ concat segs\<rparr>)"
proof (induction segs arbitrary: statev)
  case Nil
  then show ?case by simp
next
  case (Cons seg segs)
  let ?next = "statev\<lparr>absorbed := absorbed statev @ seg\<rparr>"
  have step: "srtp_hmac_update statev seg = (srtp_err_status_ok, ?next)"
    using Cons.prems by (simp add: srtp_hmac_update_def HMAC_Update_def)
  have "srtp_hmac_update_all ?next segs =
          (srtp_err_status_ok, ?next\<lparr>absorbed := absorbed ?next @ concat segs\<rparr>)"
    using Cons.prems by (intro Cons.IH) simp_all
  then show ?case
    using step by simp
qed

lemma update_all_refused:
  "key_block statev = None \<or> finalized statev \<Longrightarrow>
     snd (srtp_hmac_update_all statev segs) = statev"
  by (cases segs) (auto simp add: srtp_hmac_update_def HMAC_Update_def)

lemma key_block_after_call: "key_block (after_call statev call) = key_block statev"
  by (cases call)
     (auto simp add: srtp_hmac_start_def srtp_hmac_update_def HMAC_Init_ex_def HMAC_Update_def
        compute_cases split: if_splits)

lemma key_block_after_calls: "key_block (foldl after_call statev calls) = key_block statev"
  by (induction calls arbitrary: statev) (simp_all add: key_block_after_call)

lemma start_keyed:
  "key_block statev = Some k0 \<Longrightarrow>
     srtp_hmac_start statev =
       (srtp_err_status_ok, statev\<lparr>absorbed := [], finalized := False\<rparr>)"
  by (simp add: srtp_hmac_start_def HMAC_Init_ex_def)

lemma init_binds:
  "srtp_hmac_init statev key =
     (srtp_err_status_ok,
      \<lparr>key_block = Some (hmac_key_block key), absorbed = [], finalized = False\<rparr>)"
  by (simp add: srtp_hmac_init_def HMAC_Init_ex_def)

section \<open>Evaluating the digest of the known-answer test\<close>

text \<open>
  The two SHA-1 computations of the known-answer test, block by block; the eighty rounds
  of a block are evaluated eight at a time.
\<close>

lemma sha1_rounds_80:
  "sha1_rounds 80 0 ws =
     sha1_rounds 8 72 (sha1_rounds 8 64 (sha1_rounds 8 56 (sha1_rounds 8 48 (sha1_rounds 8 40
       (sha1_rounds 8 32 (sha1_rounds 8 24 (sha1_rounds 8 16 (sha1_rounds 8 8
         (sha1_rounds 8 0 ws)))))))))"
  by (simp add: eval_nat_numeral)

lemma sha1_blocks_2:
  "sha1_blocks 2 h bs = sha1_block (sha1_block h (take 64 bs)) (take 64 (drop 64 bs))"
  by (simp add: numeral_2_eq_2)

lemma kat_inner_block_1:
  "sha1_block (0x67452301, 0xefcdab89, 0x98badcfe, 0x10325476, 0xc3d2e1f0)
     [0x3d, 0x3d, 0x3d, 0x3d, 0x3d, 0x3d, 0x3d, 0x3d, 0x3d, 0x3d, 0x3d, 0x3d, 0x3d,
      0x3d, 0x3d, 0x3d, 0x3d, 0x3d, 0x3d, 0x3d, 0x36, 0x36, 0x36, 0x36, 0x36, 0x36,
      0x36, 0x36, 0x36, 0x36, 0x36, 0x36, 0x36, 0x36, 0x36, 0x36, 0x36, 0x36, 0x36,
      0x36, 0x36, 0x36, 0x36, 0x36, 0x36, 0x36, 0x36, 0x36, 0x36, 0x36, 0x36, 0x36,
      0x36, 0x36, 0x36, 0x36, 0x36, 0x36, 0x36, 0x36, 0x36, 0x36, 0x36, 0x36] =
   (0x064c662a, 0xcc6ed1b0, 0x6cfa9ab0, 0x042f137f, 0xcea570eb)"
proof -
  have sched: "words_of 16
      [0x3d, 0x3d, 0x3d, 0x3d, 0x3d, 0x3d, 0x3d, 0x3d, 0x3d, 0x3d, 0x3d, 0x3d, 0x3d,
       0x3d, 0x3d, 0x3d, 0x3d, 0x3d, 0x3d, 0x3d, 0x36, 0x36, 0x36, 0x36, 0x36, 0x36,
       0x36, 0x36, 0x36, 0x36, 0x36, 0x36, 0x36, 0x36, 0x36, 0x36, 0x36, 0x36, 0x36,
       0x36, 0x36, 0x36, 0x36, 0x36, 0x36, 0x36, 0x36, 0x36, 0x36, 0x36, 0x36, 0x36,
       0x36, 0x36, 0x36, 0x36, 0x36, 0x36, 0x36, 0x36, 0x36, 0x36, 0x36, 0x36] =
      [0x3d3d3d3d, 0x3d3d3d3d, 0x3d3d3d3d, 0x3d3d3d3d, 0x3d3d3d3d, 0x36363636,
       0x36363636, 0x36363636, 0x36363636, 0x36363636, 0x36363636, 0x36363636,
       0x36363636, 0x36363636, 0x36363636, 0x36363636]"
    by code_simp
  have r0: "sha1_rounds 8 0
      ([0x3d3d3d3d, 0x3d3d3d3d, 0x3d3d3d3d, 0x3d3d3d3d, 0x3d3d3d3d, 0x36363636,
        0x36363636, 0x36363636, 0x36363636, 0x36363636, 0x36363636, 0x36363636,
        0x36363636, 0x36363636, 0x36363636, 0x36363636],
       (0x67452301, 0xefcdab89, 0x98badcfe, 0x10325476, 0xc3d2e1f0)) =
      ([0x36363636, 0x36363636, 0x36363636, 0x36363636, 0x36363636, 0x36363636,
        0x36363636, 0x36363636, 0x00000000, 0x00000000, 0x00000000, 0x7a7a7a7a,
        0x7a7a7a7a, 0x6c6c6c6c, 0x98989898, 0x98989898],
       (0x1acdc001, 0xa9b3fee8, 0x44266fb4, 0x7659314e, 0x9723729e))"
    by code_simp
  have r8: "sha1_rounds 8 8
      ([0x36363636, 0x36363636, 0x36363636, 0x36363636, 0x36363636, 0x36363636,
        0x36363636, 0x36363636, 0x00000000, 0x00000000, 0x00000000, 0x7a7a7a7a,
        0x7a7a7a7a, 0x6c6c6c6c, 0x98989898, 0x98989898],
       (0x1acdc001, 0xa9b3fee8, 0x44266fb4, 0x7659314e, 0x9723729e)) =
      ([0x00000000, 0x00000000, 0x00000000, 0x7a7a7a7a, 0x7a7a7a7a, 0x6c6c6c6c,
        0x98989898, 0x98989898, 0xd8d8d8d8, 0x31313131, 0x31313131, 0x45454545,
        0x96969696, 0xbabababa, 0xd7d7d7d7, 0x70707070],
       (0x4712d176, 0xc6b4972a, 0x78ce73d1, 0x788e07aa, 0xe46ad8b3))"
    by code_simp
  have r16: "sha1_rounds 8 16
      ([0x00000000, 0x00000000, 0x00000000, 0x7a7a7a7a, 0x7a7a7a7a, 0x6c6c6c6c,
        0x98989898, 0x98989898, 0xd8d8d8d8, 0x31313131, 0x31313131, 0x45454545,
        0x96969696, 0xbabababa, 0xd7d7d7d7, 0x70707070],
       (0x4712d176, 0xc6b4972a, 0x78ce73d1, 0x788e07aa, 0xe46ad8b3)) =
      ([0xd8d8d8d8, 0x31313131, 0x31313131, 0x45454545, 0x96969696, 0xbabababa,
        0xd7d7d7d7, 0x70707070, 0xc4c4c4c4, 0x39393939, 0x76767676, 0x2f2f2f2f,
        0x9a9a9a9a, 0x70707070, 0x71717171, 0x86868686],
       (0xd03250b8, 0x638aa3f4, 0x74b10214, 0xeb06bf6a, 0x00609f4c))"
    by code_simp
  have r24: "sha1_rounds 8 24
      ([0xd8d8d8d8, 0x31313131, 0x31313131, 0x45454545, 0x96969696, 0xbabababa,
        0xd7d7d7d7, 0x70707070, 0xc4c4c4c4, 0x39393939, 0x76767676, 0x2f2f2f2f,
        0x9a9a9a9a, 0x70707070, 0x71717171, 0x86868686],
       (0xd03250b8, 0x638aa3f4, 0x74b10214, 0xeb06bf6a, 0x00609f4c)) =
      ([0xc4c4c4c4, 0x39393939, 0x76767676, 0x2f2f2f2f, 0x9a9a9a9a, 0x70707070,
        0x71717171, 0x86868686, 0xbabababa, 0x78787878, 0xaeaeaeae, 0xd4d4d4d4,
        0x47474747, 0x28282828, 0x6d6d6d6d, 0x11111111],
       (0x4f80a4e1, 0xafdf5431, 0x07ad90cf, 0xb314ae04, 0xd2e59e87))"
    by code_simp
  have r32: "sha1_rounds 8 32
      ([0xc4c4c4c4, 0x39393939, 0x76767676, 0x2f2f2f2f, 0x9a9a9a9a, 0x70707070,
        0x71717171, 0x86868686, 0xbabababa, 0x78787878, 0xaeaeaeae, 0xd4d4d4d4,
        0x47474747, 0x28282828, 0x6d6d6d6d, 0x11111111],
       (0x4f80a4e1, 0xafdf5431, 0x07ad90cf, 0xb314ae04, 0xd2e59e87)) =
      ([0xbabababa, 0x78787878, 0xaeaeaeae, 0xd4d4d4d4, 0x47474747, 0x28282828,
        0x6d6d6d6d, 0x11111111, 0x40404040, 0x06060606, 0xa6a6a6a6, 0x97979797,
        0x55555555, 0xf0f0f0f0, 0x62626262, 0x75757575],
       (0x05bc8c85, 0x94688dce, 0x41ef10b8, 0xb01ee2db, 0xf187aa14))"
    by code_simp
  have r40: "sha1_rounds 8 40
      ([0xbabababa, 0x78787878, 0xaeaeaeae, 0xd4d4d4d4, 0x47474747, 0x28282828,
        0x6d6d6d6d, 0x11111111, 0x40404040, 0x06060606, 0xa6a6a6a6, 0x97979797,
        0x55555555, 0xf0f0f0f0, 0x62626262, 0x75757575],
       (0x05bc8c85, 0x94688dce, 0x41ef10b8, 0xb01ee2db, 0xf187aa14)) =
      ([0x40404040, 0x06060606, 0xa6a6a6a6, 0x97979797, 0x55555555, 0xf0f0f0f0,
        0x62626262, 0x75757575, 0x49494949, 0x91919191, 0x74747474, 0x44444444,
        0xdddddddd, 0x7b7b7b7b, 0x16161616, 0x7f7f7f7f],
       (0xaa8ca1e2, 0x8da3d8e9, 0xa4f881d6, 0x6b62f96c, 0x4adae3e2))"
    by code_simp
  have r48: "sha1_rounds 8 48
      ([0x40404040, 0x06060606, 0xa6a6a6a6, 0x97979797, 0x55555555, 0xf0f0f0f0,
        0x62626262, 0x75757575, 0x49494949, 0x91919191, 0x74747474, 0x44444444,
        0xdddddddd, 0x7b7b7b7b, 0x16161616, 0x7f7f7f7f],
       (0xaa8ca1e2, 0x8da3d8e9, 0xa4f881d6, 0x6b62f96c, 0x4adae3e2)) =
      ([0x49494949, 0x91919191, 0x74747474, 0x44444444, 0xdddddddd, 0x7b7b7b7b,
        0x16161616, 0x7f7f7f7f, 0xa9a9a9a9, 0x2c2c2c2c, 0xf1f1f1f1, 0x15151515,
        0x8d8d8d8d, 0x1e1e1e1e, 0x50505050, 0x2c2c2c2c],
       (0x3498c49e, 0x65446240, 0xae10f88e, 0x2d3da0fc, 0x747eee2f))"
    by code_simp
  have r56: "sha1_rounds 8 56
      ([0x49494949, 0x91919191, 0x74747474, 0x44444444, 0xdddddddd, 0x7b7b7b7b,
        0x16161616, 0x7f7f7f7f, 0xa9a9a9a9, 0x2c2c2c2c, 0xf1f1f1f1, 0x15151515,
        0x8d8d8d8d, 0x1e1e1e1e, 0x50505050, 0x2c2c2c2c],
       (0x3498c49e, 0x65446240, 0xae10f88e, 0x2d3da0fc, 0x747eee2f)) =
      ([0xa9a9a9a9, 0x2c2c2c2c, 0xf1f1f1f1, 0x15151515, 0x8d8d8d8d, 0x1e1e1e1e,
        0x50505050, 0x2c2c2c2c, 0x15151515, 0x53535353, 0xe8e8e8e8, 0x7e7e7e7e,
        0x2a2a2a2a, 0xe5e5e5e5, 0x23232323, 0xaaaaaaaa],
       (0x26a5cb98, 0x90445002, 0x589251ea, 0x9de1b266, 0x7ced3ec0))"
    by code_simp
  have r64: "sha1_rounds 8 64
      ([0xa9a9a9a9, 0x2c2c2c2c, 0xf1f1f1f1, 0x15151515, 0x8d8d8d8d, 0x1e1e1e1e,
        0x50505050, 0x2c2c2c2c, 0x15151515, 0x53535353, 0xe8e8e8e8, 0x7e7e7e7e,
        0x2a2a2a2a, 0xe5e5e5e5, 0x23232323, 0xaaaaaaaa],
       (0x26a5cb98, 0x90445002, 0x589251ea, 0x9de1b266, 0x7ced3ec0)) =
      ([0x15151515, 0x53535353, 0xe8e8e8e8, 0x7e7e7e7e, 0x2a2a2a2a, 0xe5e5e5e5,
        0x23232323, 0xaaaaaaaa, 0x51515151, 0x92929292, 0x7c7c7c7c, 0x48484848,
        0xcacacaca, 0x57575757, 0x5c5c5c5c, 0x3e3e3e3e],
       (0x6c549524, 0x773737c0, 0xedd4aa5a, 0x5e26ea17, 0xd531bb50))"
    by code_simp
  have r72: "sha1_rounds 8 72
      ([0x15151515, 0x53535353, 0xe8e8e8e8, 0x7e7e7e7e, 0x2a2a2a2a, 0xe5e5e5e5,
        0x23232323, 0xaaaaaaaa, 0x51515151, 0x92929292, 0x7c7c7c7c, 0x48484848,
        0xcacacaca, 0x57575757, 0x5c5c5c5c, 0x3e3e3e3e],
       (0x6c549524, 0x773737c0, 0xedd4aa5a, 0x5e26ea17, 0xd531bb50)) =
      ([0x51515151, 0x92929292, 0x7c7c7c7c, 0x48484848, 0xcacacaca, 0x57575757,
        0x5c5c5c5c, 0x3e3e3e3e, 0xf7f7f7f7, 0xc7c7c7c7, 0x01010101, 0x48484848,
        0x08080808, 0x32323232, 0xcccccccc, 0x1c1c1c1c],
       (0x9f074329, 0xdca12627, 0xd43fbdb2, 0xf3fcbf09, 0x0ad28efb))"
    by code_simp
  show ?thesis
    by (simp only: sha1_block_def sched sha1_rounds_80 r0 r8 r16 r24 r32 r40 r48 r56 r64 r72 snd_conv sha1_add.simps)
       simp
qed

lemma kat_inner_block_2:
  "sha1_block (0x064c662a, 0xcc6ed1b0, 0x6cfa9ab0, 0x042f137f, 0xcea570eb)
     [0x48, 0x69, 0x20, 0x54, 0x68, 0x65, 0x72, 0x65, 0x80, 0x00, 0x00, 0x00, 0x00,
      0x00, 0x00, 0x00, 0x00, 0x00, 0x00, 0x00, 0x00, 0x00, 0x00, 0x00, 0x00, 0x00,
      0x00, 0x00, 0x00, 0x00, 0x00, 0x00, 0x00, 0x00, 0x00, 0x00, 0x00, 0x00, 0x00,
      0x00, 0x00, 0x00, 0x00, 0x00, 0x00, 0x00, 0x00, 0x00, 0x00, 0x00, 0x00, 0x00,
      0x00, 0x00, 0x00, 0x00, 0x00, 0x00, 0x00, 0x00, 0x00, 0x00, 0x02, 0x40] =
   (0x376637c8, 0x923dc595, 0xe41a2797, 0x2e995121, 0x1d40ce98)"
proof -
  have sched: "words_of 16
      [0x48, 0x69, 0x20, 0x54, 0x68, 0x65, 0x72, 0x65, 0x80, 0x00, 0x00, 0x00, 0x00,
       0x00, 0x00, 0x00, 0x00, 0x00, 0x00, 0x00, 0x00, 0x00, 0x00, 0x00, 0x00, 0x00,
       0x00, 0x00, 0x00, 0x00, 0x00, 0x00, 0x00, 0x00, 0x00, 0x00, 0x00, 0x00, 0x00,
       0x00, 0x00, 0x00, 0x00, 0x00, 0x00, 0x00, 0x00, 0x00, 0x00, 0x00, 0x00, 0x00,
       0x00, 0x00, 0x00, 0x00, 0x00, 0x00, 0x00, 0x00, 0x00, 0x00, 0x02, 0x40] =
      [0x48692054, 0x68657265, 0x80000000, 0x00000000, 0x00000000, 0x00000000,
       0x00000000, 0x00000000, 0x00000000, 0x00000000, 0x00000000, 0x00000000,
       0x00000000, 0x00000000, 0x00000000, 0x00000240]"
    by code_simp
  have r0: "sha1_rounds 8 0
      ([0x48692054, 0x68657265, 0x80000000, 0x00000000, 0x00000000, 0x00000000,
        0x00000000, 0x00000000, 0x00000000, 0x00000000, 0x00000000, 0x00000000,
        0x00000000, 0x00000000, 0x00000000, 0x00000240],
       (0x064c662a, 0xcc6ed1b0, 0x6cfa9ab0, 0x042f137f, 0xcea570eb)) =
      ([0x00000000, 0x00000000, 0x00000000, 0x00000000, 0x00000000, 0x00000000,
        0x00000000, 0x00000240, 0x90d240a9, 0xd0cae4ca, 0x00000481, 0x21a48153,
        0xa195c995, 0x00000902, 0x434902a6, 0x432b97ab],
       (0x83fc2d6c, 0x180a164f, 0x213d64e5, 0x420ba673, 0xd284c45f))"
    by code_simp
  have r8: "sha1_rounds 8 8
      ([0x00000000, 0x00000000, 0x00000000, 0x00000000, 0x00000000, 0x00000000,
        0x00000000, 0x00000240, 0x90d240a9, 0xd0cae4ca, 0x00000481, 0x21a48153,
        0xa195c995, 0x00000902, 0x434902a6, 0x432b97ab],
       (0x83fc2d6c, 0x180a164f, 0x213d64e5, 0x420ba673, 0xd284c45f)) =
      ([0x90d240a9, 0xd0cae4ca, 0x00000481, 0x21a48153, 0xa195c995, 0x00000902,
        0x434902a6, 0x432b97ab, 0x21a49357, 0x2707ccd9, 0x86572654, 0x00002408,
        0x0d240a99, 0x0cae5a2d, 0xa736cc0f, 0x3d8af771],
       (0x1c36ed6f, 0xc0f5acc8, 0xbadff46e, 0xa05e1dbd, 0x18a5a380))"
    by code_simp
  have r16: "sha1_rounds 8 16
      ([0x90d240a9, 0xd0cae4ca, 0x00000481, 0x21a48153, 0xa195c995, 0x00000902,
        0x434902a6, 0x432b97ab, 0x21a49357, 0x2707ccd9, 0x86572654, 0x00002408,
        0x0d240a99, 0x0cae5a2d, 0xa736cc0f, 0x3d8af771],
       (0x1c36ed6f, 0xc0f5acc8, 0xbadff46e, 0xa05e1dbd, 0x18a5a380)) =
      ([0x21a49357, 0x2707ccd9, 0x86572654, 0x00002408, 0x0d240a99, 0x0cae5a2d,
        0xa736cc0f, 0x3d8af771, 0x7bb11aa5, 0xe2beca9e, 0x34903862, 0xb42b6df8,
        0x1a8c1668, 0xf62bf9cc, 0xe3e0600c, 0x865574d6],
       (0x0f39eeb0, 0x8c5179c8, 0xd1ceb4a5, 0xac8476de, 0x705efae4))"
    by code_simp
  have r24: "sha1_rounds 8 24
      ([0x21a49357, 0x2707ccd9, 0x86572654, 0x00002408, 0x0d240a99, 0x0cae5a2d,
        0xa736cc0f, 0x3d8af771, 0x7bb11aa5, 0xe2beca9e, 0x34903862, 0xb42b6df8,
        0x1a8c1668, 0xf62bf9cc, 0xe3e0600c, 0x865574d6],
       (0x0f39eeb0, 0x8c5179c8, 0xd1ceb4a5, 0xac8476de, 0x705efae4)) =
      ([0x7bb11aa5, 0xe2beca9e, 0x34903862, 0xb42b6df8, 0x1a8c1668, 0xf62bf9cc,
        0xe3e0600c, 0x865574d6, 0x54d2acd4, 0x4cb28486, 0x736cc0f2, 0xd8af7e13,
        0xf858a8f1, 0x68c728c5, 0xcf91916b, 0x4273c391],
       (0x9383946d, 0xf54480c8, 0x0dc70544, 0x48d15d70, 0x6b336450))"
    by code_simp
  have r32: "sha1_rounds 8 32
      ([0x7bb11aa5, 0xe2beca9e, 0x34903862, 0xb42b6df8, 0x1a8c1668, 0xf62bf9cc,
        0xe3e0600c, 0x865574d6, 0x54d2acd4, 0x4cb28486, 0x736cc0f2, 0xd8af7e13,
        0xf858a8f1, 0x68c728c5, 0xcf91916b, 0x4273c391],
       (0x9383946d, 0xf54480c8, 0x0dc70544, 0x48d15d70, 0x6b336450)) =
      ([0x54d2acd4, 0x4cb28486, 0x736cc0f2, 0xd8af7e13, 0xf858a8f1, 0x68c728c5,
        0xcf91916b, 0x4273c391, 0xe6694dac, 0xab6d6517, 0x3e065ad2, 0xf98d4f16,
        0x54b37705, 0x4d7ffe1a, 0x025c254b, 0xb84e8989],
       (0x422645c7, 0xfee73464, 0xf7cfb166, 0xe55db83b, 0x324b6324))"
    by code_simp
  have r40: "sha1_rounds 8 40
      ([0x54d2acd4, 0x4cb28486, 0x736cc0f2, 0xd8af7e13, 0xf858a8f1, 0x68c728c5,
        0xcf91916b, 0x4273c391, 0xe6694dac, 0xab6d6517, 0x3e065ad2, 0xf98d4f16,
        0x54b37705, 0x4d7ffe1a, 0x025c254b, 0xb84e8989],
       (0x422645c7, 0xfee73464, 0xf7cfb166, 0xe55db83b, 0x324b6324)) =
      ([0xe6694dac, 0xab6d6517, 0x3e065ad2, 0xf98d4f16, 0x54b37705, 0x4d7ffe1a,
        0x025c254b, 0xb84e8989, 0x1951bf21, 0x7a597592, 0x1af976b0, 0xa1694dc2,
        0x3246761a, 0xfa64c7fc, 0x159b689d, 0xc62cb22a],
       (0x946291a6, 0x1a1f5f15, 0xecfd2196, 0x46862925, 0x981ab409))"
    by code_simp
  have r48: "sha1_rounds 8 48
      ([0xe6694dac, 0xab6d6517, 0x3e065ad2, 0xf98d4f16, 0x54b37705, 0x4d7ffe1a,
        0x025c254b, 0xb84e8989, 0x1951bf21, 0x7a597592, 0x1af976b0, 0xa1694dc2,
        0x3246761a, 0xfa64c7fc, 0x159b689d, 0xc62cb22a],
       (0x946291a6, 0x1a1f5f15, 0xecfd2196, 0x46862925, 0x981ab409)) =
      ([0x1951bf21, 0x7a597592, 0x1af976b0, 0xa1694dc2, 0x3246761a, 0xfa64c7fc,
        0x159b689d, 0xc62cb22a, 0x76b4df46, 0x7a446e1c, 0x6cc1d29b, 0xc65e4710,
        0x3dda9490, 0xc728c5e8, 0x91916bcf, 0x73c3b542],
       (0xdf940861, 0x4b42b9b5, 0x4194e897, 0x0752f80c, 0x91c47b81))"
    by code_simp
  have r56: "sha1_rounds 8 56
      ([0x1951bf21, 0x7a597592, 0x1af976b0, 0xa1694dc2, 0x3246761a, 0xfa64c7fc,
        0x159b689d, 0xc62cb22a, 0x76b4df46, 0x7a446e1c, 0x6cc1d29b, 0xc65e4710,
        0x3dda9490, 0xc728c5e8, 0x91916bcf, 0x73c3b542],
       (0xdf940861, 0x4b42b9b5, 0x4194e897, 0x0752f80c, 0x91c47b81)) =
      ([0x76b4df46, 0x7a446e1c, 0x6cc1d29b, 0xc65e4710, 0x3dda9490, 0xc728c5e8,
        0x91916bcf, 0x73c3b542, 0x6469a67f, 0x61ca7b06, 0x6f7acee6, 0xf274d6a3,
        0xf79be222, 0x2834fdb1, 0x0194156e, 0x706116ac],
       (0xeb9b2a9c, 0xec2d643e, 0x15668d2d, 0x4c8ba4ac, 0x0df1c6a1))"
    by code_simp
  have r64: "sha1_rounds 8 64
      ([0x76b4df46, 0x7a446e1c, 0x6cc1d29b, 0xc65e4710, 0x3dda9490, 0xc728c5e8,
        0x91916bcf, 0x73c3b542, 0x6469a67f, 0x61ca7b06, 0x6f7acee6, 0xf274d6a3,
        0xf79be222, 0x2834fdb1, 0x0194156e, 0x706116ac],
       (0xeb9b2a9c, 0xec2d643e, 0x15668d2d, 0x4c8ba4ac, 0x0df1c6a1)) =
      ([0x6469a67f, 0x61ca7b06, 0x6f7acee6, 0xf274d6a3, 0xf79be222, 0x2834fdb1,
        0x0194156e, 0x706116ac, 0xac50ac26, 0xb8888ec9, 0x9c013c82, 0xbea5f0fa,
        0xc6b12769, 0x01bd6332, 0x95925048, 0x49b3ff03],
       (0x9de33036, 0xf733f4cc, 0xbfcc0a33, 0xbeb352ae, 0xfed1866e))"
    by code_simp
  have r72: "sha1_rounds 8 72
      ([0x6469a67f, 0x61ca7b06, 0x6f7acee6, 0xf274d6a3, 0xf79be222, 0x2834fdb1,
        0x0194156e, 0x706116ac, 0xac50ac26, 0xb8888ec9, 0x9c013c82, 0xbea5f0fa,
        0xc6b12769, 0x01bd6332, 0x95925048, 0x49b3ff03],
       (0x9de33036, 0xf733f4cc, 0xbfcc0a33, 0xbeb352ae, 0xfed1866e)) =
      ([0xac50ac26, 0xb8888ec9, 0x9c013c82, 0xbea5f0fa, 0xc6b12769, 0x01bd6332,
        0x95925048, 0x49b3ff03, 0x4dfd4f1b, 0x7d48e649, 0x9aa7de8a, 0x523129e6,
        0x9bec6cd8, 0x869ead4b, 0xd4cf81cc, 0x356c177c],
       (0x3119d19e, 0xc5cef3e5, 0x771f8ce7, 0x2a6a3da2, 0x4e9b5dad))"
    by code_simp
  show ?thesis
    by (simp only: sha1_block_def sched sha1_rounds_80 r0 r8 r16 r24 r32 r40 r48 r56 r64 r72 snd_conv sha1_add.simps)
       simp
qed

lemma kat_inner_hash:
  "sha1 [0x3d, 0x3d, 0x3d, 0x3d, 0x3d, 0x3d, 0x3d, 0x3d, 0x3d, 0x3d, 0x3d, 0x3d, 0x3d,
         0x3d, 0x3d, 0x3d, 0x3d, 0x3d, 0x3d, 0x3d, 0x36, 0x36, 0x36, 0x36, 0x36, 0x36,
         0x36, 0x36, 0x36, 0x36, 0x36, 0x36, 0x36, 0x36, 0x36, 0x36, 0x36, 0x36, 0x36,
         0x36, 0x36, 0x36, 0x36, 0x36, 0x36, 0x36, 0x36, 0x36, 0x36, 0x36, 0x36, 0x36,
         0x36, 0x36, 0x36, 0x36, 0x36, 0x36, 0x36, 0x36, 0x36, 0x36, 0x36, 0x36, 0x48,
         0x69, 0x20, 0x54, 0x68, 0x65, 0x72, 0x65] =
   [0x37, 0x66, 0x37, 0xc8, 0x92, 0x3d, 0xc5, 0x95, 0xe4, 0x1a, 0x27, 0x97, 0x2e, 0x99,
     0x51, 0x21, 0x1d, 0x40, 0xce, 0x98]"
proof -
  have padded: "sha1_pad [0x3d, 0x3d, 0x3d, 0x3d, 0x3d, 0x3d, 0x3d, 0x3d, 0x3d, 0x3d,
                        0x3d, 0x3d, 0x3d, 0x3d, 0x3d, 0x3d, 0x3d, 0x3d, 0x3d, 0x3d,
                        0x36, 0x36, 0x36, 0x36, 0x36, 0x36, 0x36, 0x36, 0x36, 0x36,
                        0x36, 0x36, 0x36, 0x36, 0x36, 0x36, 0x36, 0x36, 0x36, 0x36,
                        0x36, 0x36, 0x36, 0x36, 0x36, 0x36, 0x36, 0x36, 0x36, 0x36,
                        0x36, 0x36, 0x36, 0x36, 0x36, 0x36, 0x36, 0x36, 0x36, 0x36,
                        0x36, 0x36, 0x36, 0x36, 0x48, 0x69, 0x20, 0x54, 0x68, 0x65,
                        0x72, 0x65] =
      [0x3d, 0x3d, 0x3d, 0x3d, 0x3d, 0x3d, 0x3d, 0x3d, 0x3d, 0x3d, 0x3d, 0x3d, 0x3d,
       0x3d, 0x3d, 0x3d, 0x3d, 0x3d, 0x3d, 0x3d, 0x36, 0x36, 0x36, 0x36, 0x36, 0x36,
       0x36, 0x36, 0x36, 0x36, 0x36, 0x36, 0x36, 0x36, 0x36, 0x36, 0x36, 0x36, 0x36,
       0x36, 0x36, 0x36, 0x36, 0x36, 0x36, 0x36, 0x36, 0x36, 0x36, 0x36, 0x36, 0x36,
       0x36, 0x36, 0x36, 0x36, 0x36, 0x36, 0x36, 0x36, 0x36, 0x36, 0x36, 0x36, 0x48,
       0x69, 0x20, 0x54, 0x68, 0x65, 0x72, 0x65, 0x80, 0x00, 0x00, 0x00, 0x00, 0x00,
       0x00, 0x00, 0x00, 0x00, 0x00, 0x00, 0x00, 0x00, 0x00, 0x00, 0x00, 0x00, 0x00,
       0x00, 0x00, 0x00, 0x00, 0x00, 0x00, 0x00, 0x00, 0x00, 0x00, 0x00, 0x00, 0x00,
       0x00, 0x00, 0x00, 0x00, 0x00, 0x00, 0x00, 0x00, 0x00, 0x00, 0x00, 0x00, 0x00,
       0x00, 0x00, 0x00, 0x00, 0x00, 0x00, 0x00, 0x00, 0x00, 0x02, 0x40]"
    by code_simp
  have blocks: "length ([0x3d, 0x3d, 0x3d, 0x3d, 0x3d, 0x3d, 0x3d, 0x3d, 0x3d, 0x3d,
                          0x3d, 0x3d, 0x3d, 0x3d, 0x3d, 0x3d, 0x3d, 0x3d, 0x3d, 0x3d,
                          0x36, 0x36, 0x36, 0x36, 0x36, 0x36, 0x36, 0x36, 0x36, 0x36,
                          0x36, 0x36, 0x36, 0x36, 0x36, 0x36, 0x36, 0x36, 0x36, 0x36,
                          0x36, 0x36, 0x36, 0x36, 0x36, 0x36, 0x36, 0x36, 0x36, 0x36,
                          0x36, 0x36, 0x36, 0x36, 0x36, 0x36, 0x36, 0x36, 0x36, 0x36,
                          0x36, 0x36, 0x36, 0x36, 0x48, 0x69, 0x20, 0x54, 0x68, 0x65,
                          0x72, 0x65, 0x80, 0x00, 0x00, 0x00, 0x00, 0x00, 0x00, 0x00,
                          0x00, 0x00, 0x00, 0x00, 0x00, 0x00, 0x00, 0x00, 0x00, 0x00,
                          0x00, 0x00, 0x00, 0x00, 0x00, 0x00, 0x00, 0x00, 0x00, 0x00,
                          0x00, 0x00, 0x00, 0x00, 0x00, 0x00, 0x00, 0x00, 0x00, 0x00,
                          0x00, 0x00, 0x00, 0x00, 0x00, 0x00, 0x00, 0x00, 0x00, 0x00,
                          0x00, 0x00, 0x00, 0x00, 0x00, 0x00, 0x02, 0x40] :: u8 list) div 64 = 2"
    by code_simp
  have first: "take 64 ([0x3d, 0x3d, 0x3d, 0x3d, 0x3d, 0x3d, 0x3d, 0x3d, 0x3d, 0x3d,
                        0x3d, 0x3d, 0x3d, 0x3d, 0x3d, 0x3d, 0x3d, 0x3d, 0x3d, 0x3d,
                        0x36, 0x36, 0x36, 0x36, 0x36, 0x36, 0x36, 0x36, 0x36, 0x36,
                        0x36, 0x36, 0x36, 0x36, 0x36, 0x36, 0x36, 0x36, 0x36, 0x36,
                        0x36, 0x36, 0x36, 0x36, 0x36, 0x36, 0x36, 0x36, 0x36, 0x36,
                        0x36, 0x36, 0x36, 0x36, 0x36, 0x36, 0x36, 0x36, 0x36, 0x36,
                        0x36, 0x36, 0x36, 0x36, 0x48, 0x69, 0x20, 0x54, 0x68, 0x65,
                        0x72, 0x65, 0x80, 0x00, 0x00, 0x00, 0x00, 0x00, 0x00, 0x00,
                        0x00, 0x00, 0x00, 0x00, 0x00, 0x00, 0x00, 0x00, 0x00, 0x00,
                        0x00, 0x00, 0x00, 0x00, 0x00, 0x00, 0x00, 0x00, 0x00, 0x00,
                        0x00, 0x00, 0x00, 0x00, 0x00, 0x00, 0x00, 0x00, 0x00, 0x00,
                        0x00, 0x00, 0x00, 0x00, 0x00, 0x00, 0x00, 0x00, 0x00, 0x00,
                        0x00, 0x00, 0x00, 0x00, 0x00, 0x00, 0x02, 0x40] :: u8 list) =
      [0x3d, 0x3d, 0x3d, 0x3d, 0x3d, 0x3d, 0x3d, 0x3d, 0x3d, 0x3d, 0x3d, 0x3d, 0x3d,
       0x3d, 0x3d, 0x3d, 0x3d, 0x3d, 0x3d, 0x3d, 0x36, 0x36, 0x36, 0x36, 0x36, 0x36,
       0x36, 0x36, 0x36, 0x36, 0x36, 0x36, 0x36, 0x36, 0x36, 0x36, 0x36, 0x36, 0x36,
       0x36, 0x36, 0x36, 0x36, 0x36, 0x36, 0x36, 0x36, 0x36, 0x36, 0x36, 0x36, 0x36,
       0x36, 0x36, 0x36, 0x36, 0x36, 0x36, 0x36, 0x36, 0x36, 0x36, 0x36, 0x36]"
    by code_simp
  have second: "take 64 (drop 64 ([0x3d, 0x3d, 0x3d, 0x3d, 0x3d, 0x3d, 0x3d, 0x3d, 0x3d,
                                  0x3d, 0x3d, 0x3d, 0x3d, 0x3d, 0x3d, 0x3d, 0x3d, 0x3d,
                                  0x3d, 0x3d, 0x36, 0x36, 0x36, 0x36, 0x36, 0x36, 0x36,
                                  0x36, 0x36, 0x36, 0x36, 0x36, 0x36, 0x36, 0x36, 0x36,
                                  0x36, 0x36, 0x36, 0x36, 0x36, 0x36, 0x36, 0x36, 0x36,
                                  0x36, 0x36, 0x36, 0x36, 0x36, 0x36, 0x36, 0x36, 0x36,
                                  0x36, 0x36, 0x36, 0x36, 0x36, 0x36, 0x36, 0x36, 0x36,
                                  0x36, 0x48, 0x69, 0x20, 0x54, 0x68, 0x65, 0x72, 0x65,
                                  0x80, 0x00, 0x00, 0x00, 0x00, 0x00, 0x00, 0x00, 0x00,
                                  0x00, 0x00, 0x00, 0x00, 0x00, 0x00, 0x00, 0x00, 0x00,
                                  0x00, 0x00, 0x00, 0x00, 0x00, 0x00, 0x00, 0x00, 0x00,
                                  0x00, 0x00, 0x00, 0x00, 0x00, 0x00, 0x00, 0x00, 0x00,
                                  0x00, 0x00, 0x00, 0x00, 0x00, 0x00, 0x00, 0x00, 0x00,
                                  0x00, 0x00, 0x00, 0x00, 0x00, 0x00, 0x00, 0x00, 0x00,
                                  0x02, 0x40] :: u8 list)) =
      [0x48, 0x69, 0x20, 0x54, 0x68, 0x65, 0x72, 0x65, 0x80, 0x00, 0x00, 0x00, 0x00,
       0x00, 0x00, 0x00, 0x00, 0x00, 0x00, 0x00, 0x00, 0x00, 0x00, 0x00, 0x00, 0x00,
       0x00, 0x00, 0x00, 0x00, 0x00, 0x00, 0x00, 0x00, 0x00, 0x00, 0x00, 0x00, 0x00,
       0x00, 0x00, 0x00, 0x00, 0x00, 0x00, 0x00, 0x00, 0x00, 0x00, 0x00, 0x00, 0x00,
       0x00, 0x00, 0x00, 0x00, 0x00, 0x00, 0x00, 0x00, 0x00, 0x00, 0x02, 0x40]"
    by code_simp
  have out: "sha1_output (0x376637c8, 0x923dc595, 0xe41a2797, 0x2e995121, 0x1d40ce98) =
      [0x37, 0x66, 0x37, 0xc8, 0x92, 0x3d, 0xc5, 0x95, 0xe4, 0x1a, 0x27, 0x97, 0x2e,
       0x99, 0x51, 0x21, 0x1d, 0x40, 0xce, 0x98]"
    by code_simp
  show ?thesis
    by (simp only: sha1_def Let_def padded blocks sha1_blocks_2 first second sha1_init_def
          kat_inner_block_1 kat_inner_block_2 out)
qed

lemma kat_outer_block_1:
  "sha1_block (0x67452301, 0xefcdab89, 0x98badcfe, 0x10325476, 0xc3d2e1f0)
     [0x57, 0x57, 0x57, 0x57, 0x57, 0x57, 0x57, 0x57, 0x57, 0x57, 0x57, 0x57, 0x57,
      0x57, 0x57, 0x57, 0x57, 0x57, 0x57, 0x57, 0x5c, 0x5c, 0x5c, 0x5c, 0x5c, 0x5c,
      0x5c, 0x5c, 0x5c, 0x5c, 0x5c, 0x5c, 0x5c, 0x5c, 0x5c, 0x5c, 0x5c, 0x5c, 0x5c,
      0x5c, 0x5c, 0x5c, 0x5c, 0x5c, 0x5c, 0x5c, 0x5c, 0x5c, 0x5c, 0x5c, 0x5c, 0x5c,
      0x5c, 0x5c, 0x5c, 0x5c, 0x5c, 0x5c, 0x5c, 0x5c, 0x5c, 0x5c, 0x5c, 0x5c] =
   (0xd62acccc, 0x7e6a98b3, 0xdf015b02, 0xd885c3e0, 0x9bd184cb)"
proof -
  have sched: "words_of 16
      [0x57, 0x57, 0x57, 0x57, 0x57, 0x57, 0x57, 0x57, 0x57, 0x57, 0x57, 0x57, 0x57,
       0x57, 0x57, 0x57, 0x57, 0x57, 0x57, 0x57, 0x5c, 0x5c, 0x5c, 0x5c, 0x5c, 0x5c,
       0x5c, 0x5c, 0x5c, 0x5c, 0x5c, 0x5c, 0x5c, 0x5c, 0x5c, 0x5c, 0x5c, 0x5c, 0x5c,
       0x5c, 0x5c, 0x5c, 0x5c, 0x5c, 0x5c, 0x5c, 0x5c, 0x5c, 0x5c, 0x5c, 0x5c, 0x5c,
       0x5c, 0x5c, 0x5c, 0x5c, 0x5c, 0x5c, 0x5c, 0x5c, 0x5c, 0x5c, 0x5c, 0x5c] =
      [0x57575757, 0x57575757, 0x57575757, 0x57575757, 0x57575757, 0x5c5c5c5c,
       0x5c5c5c5c, 0x5c5c5c5c, 0x5c5c5c5c, 0x5c5c5c5c, 0x5c5c5c5c, 0x5c5c5c5c,
       0x5c5c5c5c, 0x5c5c5c5c, 0x5c5c5c5c, 0x5c5c5c5c]"
    by code_simp
  have r0: "sha1_rounds 8 0
      ([0x57575757, 0x57575757, 0x57575757, 0x57575757, 0x57575757, 0x5c5c5c5c,
        0x5c5c5c5c, 0x5c5c5c5c, 0x5c5c5c5c, 0x5c5c5c5c, 0x5c5c5c5c, 0x5c5c5c5c,
        0x5c5c5c5c, 0x5c5c5c5c, 0x5c5c5c5c, 0x5c5c5c5c],
       (0x67452301, 0xefcdab89, 0x98badcfe, 0x10325476, 0xc3d2e1f0)) =
      ([0x5c5c5c5c, 0x5c5c5c5c, 0x5c5c5c5c, 0x5c5c5c5c, 0x5c5c5c5c, 0x5c5c5c5c,
        0x5c5c5c5c, 0x5c5c5c5c, 0x00000000, 0x00000000, 0x00000000, 0xaeaeaeae,
        0xaeaeaeae, 0xb8b8b8b8, 0xe5e5e5e5, 0xe5e5e5e5],
       (0x2da294c4, 0x202298f9, 0xa928951c, 0x161159ea, 0xad3db301))"
    by code_simp
  have r8: "sha1_rounds 8 8
      ([0x5c5c5c5c, 0x5c5c5c5c, 0x5c5c5c5c, 0x5c5c5c5c, 0x5c5c5c5c, 0x5c5c5c5c,
        0x5c5c5c5c, 0x5c5c5c5c, 0x00000000, 0x00000000, 0x00000000, 0xaeaeaeae,
        0xaeaeaeae, 0xb8b8b8b8, 0xe5e5e5e5, 0xe5e5e5e5],
       (0x2da294c4, 0x202298f9, 0xa928951c, 0x161159ea, 0xad3db301)) =
      ([0x00000000, 0x00000000, 0x00000000, 0xaeaeaeae, 0xaeaeaeae, 0xb8b8b8b8,
        0xe5e5e5e5, 0xe5e5e5e5, 0x71717171, 0xcbcbcbcb, 0xcbcbcbcb, 0xbfbfbfbf,
        0xcacacaca, 0xe6e6e6e6, 0x0c0c0c0c, 0xe6e6e6e6],
       (0x8efdd152, 0xd4644c96, 0xe553f6df, 0xeac1070f, 0x691c26c6))"
    by code_simp
  have r16: "sha1_rounds 8 16
      ([0x00000000, 0x00000000, 0x00000000, 0xaeaeaeae, 0xaeaeaeae, 0xb8b8b8b8,
        0xe5e5e5e5, 0xe5e5e5e5, 0x71717171, 0xcbcbcbcb, 0xcbcbcbcb, 0xbfbfbfbf,
        0xcacacaca, 0xe6e6e6e6, 0x0c0c0c0c, 0xe6e6e6e6],
       (0x8efdd152, 0xd4644c96, 0xe553f6df, 0xeac1070f, 0x691c26c6)) =
      ([0x71717171, 0xcbcbcbcb, 0xcbcbcbcb, 0xbfbfbfbf, 0xcacacaca, 0xe6e6e6e6,
        0x0c0c0c0c, 0xe6e6e6e6, 0x2f2f2f2f, 0xd2d2d2d2, 0x07070707, 0x0d0d0d0d,
        0xa6a6a6a6, 0x79797979, 0x2b2b2b2b, 0xdcdcdcdc],
       (0x296eb519, 0x93377e09, 0x856b365f, 0x929e0bed, 0x81c8623c))"
    by code_simp
  have r24: "sha1_rounds 8 24
      ([0x71717171, 0xcbcbcbcb, 0xcbcbcbcb, 0xbfbfbfbf, 0xcacacaca, 0xe6e6e6e6,
        0x0c0c0c0c, 0xe6e6e6e6, 0x2f2f2f2f, 0xd2d2d2d2, 0x07070707, 0x0d0d0d0d,
        0xa6a6a6a6, 0x79797979, 0x2b2b2b2b, 0xdcdcdcdc],
       (0x296eb519, 0x93377e09, 0x856b365f, 0x929e0bed, 0x81c8623c)) =
      ([0x2f2f2f2f, 0xd2d2d2d2, 0x07070707, 0x0d0d0d0d, 0xa6a6a6a6, 0x79797979,
        0x2b2b2b2b, 0xdcdcdcdc, 0xd9d9d9d9, 0x1b1b1b1b, 0xb5b5b5b5, 0x1b1b1b1b,
        0xf6f6f6f6, 0x99999999, 0x26262626, 0x3c3c3c3c],
       (0xdd026ba8, 0x3d522ce5, 0xf0e63762, 0xd3a8ee8f, 0x5151efd0))"
    by code_simp
  have r32: "sha1_rounds 8 32
      ([0x2f2f2f2f, 0xd2d2d2d2, 0x07070707, 0x0d0d0d0d, 0xa6a6a6a6, 0x79797979,
        0x2b2b2b2b, 0xdcdcdcdc, 0xd9d9d9d9, 0x1b1b1b1b, 0xb5b5b5b5, 0x1b1b1b1b,
        0xf6f6f6f6, 0x99999999, 0x26262626, 0x3c3c3c3c],
       (0xdd026ba8, 0x3d522ce5, 0xf0e63762, 0xd3a8ee8f, 0x5151efd0)) =
      ([0xd9d9d9d9, 0x1b1b1b1b, 0xb5b5b5b5, 0x1b1b1b1b, 0xf6f6f6f6, 0x99999999,
        0x26262626, 0x3c3c3c3c, 0xd0d0d0d0, 0xc5c5c5c5, 0x50505050, 0x7f7f7f7f,
        0x7d7d7d7d, 0xd8d8d8d8, 0x57575757, 0x0d0d0d0d],
       (0x8688e802, 0x471cd067, 0xa7cfd43e, 0x9a87a9d7, 0x47d1faa8))"
    by code_simp
  have r40: "sha1_rounds 8 40
      ([0xd9d9d9d9, 0x1b1b1b1b, 0xb5b5b5b5, 0x1b1b1b1b, 0xf6f6f6f6, 0x99999999,
        0x26262626, 0x3c3c3c3c, 0xd0d0d0d0, 0xc5c5c5c5, 0x50505050, 0x7f7f7f7f,
        0x7d7d7d7d, 0xd8d8d8d8, 0x57575757, 0x0d0d0d0d],
       (0x8688e802, 0x471cd067, 0xa7cfd43e, 0x9a87a9d7, 0x47d1faa8)) =
      ([0xd0d0d0d0, 0xc5c5c5c5, 0x50505050, 0x7f7f7f7f, 0x7d7d7d7d, 0xd8d8d8d8,
        0x57575757, 0x0d0d0d0d, 0xc8c8c8c8, 0x25252525, 0x3c3c3c3c, 0x6a6a6a6a,
        0x11111111, 0x82828282, 0x97979797, 0xcbcbcbcb],
       (0xd3eb99ba, 0x1beaf4fb, 0x30265be3, 0xf62d1eb1, 0xd6bc41fc))"
    by code_simp
  have r48: "sha1_rounds 8 48
      ([0xd0d0d0d0, 0xc5c5c5c5, 0x50505050, 0x7f7f7f7f, 0x7d7d7d7d, 0xd8d8d8d8,
        0x57575757, 0x0d0d0d0d, 0xc8c8c8c8, 0x25252525, 0x3c3c3c3c, 0x6a6a6a6a,
        0x11111111, 0x82828282, 0x97979797, 0xcbcbcbcb],
       (0xd3eb99ba, 0x1beaf4fb, 0x30265be3, 0xf62d1eb1, 0xd6bc41fc)) =
      ([0xc8c8c8c8, 0x25252525, 0x3c3c3c3c, 0x6a6a6a6a, 0x11111111, 0x82828282,
        0x97979797, 0xcbcbcbcb, 0x95959595, 0x10101010, 0xb5b5b5b5, 0xb0b0b0b0,
        0x56565656, 0xc5c5c5c5, 0x71717171, 0x6b6b6b6b],
       (0x893d7669, 0x122c48c4, 0x9ae4689b, 0xb6a87215, 0x2d3e7a10))"
    by code_simp
  have r56: "sha1_rounds 8 56
      ([0xc8c8c8c8, 0x25252525, 0x3c3c3c3c, 0x6a6a6a6a, 0x11111111, 0x82828282,
        0x97979797, 0xcbcbcbcb, 0x95959595, 0x10101010, 0xb5b5b5b5, 0xb0b0b0b0,
        0x56565656, 0xc5c5c5c5, 0x71717171, 0x6b6b6b6b],
       (0x893d7669, 0x122c48c4, 0x9ae4689b, 0xb6a87215, 0x2d3e7a10)) =
      ([0x95959595, 0x10101010, 0xb5b5b5b5, 0xb0b0b0b0, 0x56565656, 0xc5c5c5c5,
        0x71717171, 0x6b6b6b6b, 0x49494949, 0x5c5c5c5c, 0xe7e7e7e7, 0x22222222,
        0x19191919, 0xd6d6d6d6, 0xa2a2a2a2, 0x53535353],
       (0xf2cf5af4, 0xa954e1f9, 0x604ddebf, 0x08ec0d44, 0x3a2d7415))"
    by code_simp
  have r64: "sha1_rounds 8 64
      ([0x95959595, 0x10101010, 0xb5b5b5b5, 0xb0b0b0b0, 0x56565656, 0xc5c5c5c5,
        0x71717171, 0x6b6b6b6b, 0x49494949, 0x5c5c5c5c, 0xe7e7e7e7, 0x22222222,
        0x19191919, 0xd6d6d6d6, 0xa2a2a2a2, 0x53535353],
       (0xf2cf5af4, 0xa954e1f9, 0x604ddebf, 0x08ec0d44, 0x3a2d7415)) =
      ([0x49494949, 0x5c5c5c5c, 0xe7e7e7e7, 0x22222222, 0x19191919, 0xd6d6d6d6,
        0xa2a2a2a2, 0x53535353, 0x7f7f7f7f, 0xbcbcbcbc, 0xaeaeaeae, 0x50505050,
        0x05050505, 0xadadadad, 0x95959595, 0xc2c2c2c2],
       (0x7ae7bb5f, 0xd1468674, 0x24ad993d, 0xb9ee640c, 0x28be0174))"
    by code_simp
  have r72: "sha1_rounds 8 72
      ([0x49494949, 0x5c5c5c5c, 0xe7e7e7e7, 0x22222222, 0x19191919, 0xd6d6d6d6,
        0xa2a2a2a2, 0x53535353, 0x7f7f7f7f, 0xbcbcbcbc, 0xaeaeaeae, 0x50505050,
        0x05050505, 0xadadadad, 0x95959595, 0xc2c2c2c2],
       (0x7ae7bb5f, 0xd1468674, 0x24ad993d, 0xb9ee640c, 0x28be0174)) =
      ([0x7f7f7f7f, 0xbcbcbcbc, 0xaeaeaeae, 0x50505050, 0x05050505, 0xadadadad,
        0x95959595, 0xc2c2c2c2, 0xf8f8f8f8, 0xaeaeaeae, 0x25252525, 0xb8b8b8b8,
        0x20202020, 0x1a1a1a1a, 0xe1e1e1e1, 0x1a1a1a1a],
       (0x6ee5a9cb, 0x8e9ced2a, 0x46467e04, 0xc8536f6a, 0xd7fea2db))"
    by code_simp
  show ?thesis
    by (simp only: sha1_block_def sched sha1_rounds_80 r0 r8 r16 r24 r32 r40 r48 r56 r64 r72 snd_conv sha1_add.simps)
       simp
qed

lemma kat_outer_block_2:
  "sha1_block (0xd62acccc, 0x7e6a98b3, 0xdf015b02, 0xd885c3e0, 0x9bd184cb)
     [0x37, 0x66, 0x37, 0xc8, 0x92, 0x3d, 0xc5, 0x95, 0xe4, 0x1a, 0x27, 0x97, 0x2e,
      0x99, 0x51, 0x21, 0x1d, 0x40, 0xce, 0x98, 0x80, 0x00, 0x00, 0x00, 0x00, 0x00,
      0x00, 0x00, 0x00, 0x00, 0x00, 0x00, 0x00, 0x00, 0x00, 0x00, 0x00, 0x00, 0x00,
      0x00, 0x00, 0x00, 0x00, 0x00, 0x00, 0x00, 0x00, 0x00, 0x00, 0x00, 0x00, 0x00,
      0x00, 0x00, 0x00, 0x00, 0x00, 0x00, 0x00, 0x00, 0x00, 0x00, 0x02, 0xa0] =
   (0xb6173186, 0x55057264, 0xe28bc0b6, 0xfb378c8e, 0xf146be00)"
proof -
  have sched: "words_of 16
      [0x37, 0x66, 0x37, 0xc8, 0x92, 0x3d, 0xc5, 0x95, 0xe4, 0x1a, 0x27, 0x97, 0x2e,
       0x99, 0x51, 0x21, 0x1d, 0x40, 0xce, 0x98, 0x80, 0x00, 0x00, 0x00, 0x00, 0x00,
       0x00, 0x00, 0x00, 0x00, 0x00, 0x00, 0x00, 0x00, 0x00, 0x00, 0x00, 0x00, 0x00,
       0x00, 0x00, 0x00, 0x00, 0x00, 0x00, 0x00, 0x00, 0x00, 0x00, 0x00, 0x00, 0x00,
       0x00, 0x00, 0x00, 0x00, 0x00, 0x00, 0x00, 0x00, 0x00, 0x00, 0x02, 0xa0] =
      [0x376637c8, 0x923dc595, 0xe41a2797, 0x2e995121, 0x1d40ce98, 0x80000000,
       0x00000000, 0x00000000, 0x00000000, 0x00000000, 0x00000000, 0x00000000,
       0x00000000, 0x00000000, 0x00000000, 0x000002a0]"
    by code_simp
  have r0: "sha1_rounds 8 0
      ([0x376637c8, 0x923dc595, 0xe41a2797, 0x2e995121, 0x1d40ce98, 0x80000000,
        0x00000000, 0x00000000, 0x00000000, 0x00000000, 0x00000000, 0x00000000,
        0x00000000, 0x00000000, 0x00000000, 0x000002a0],
       (0xd62acccc, 0x7e6a98b3, 0xdf015b02, 0xd885c3e0, 0x9bd184cb)) =
      ([0x00000000, 0x00000000, 0x00000000, 0x00000000, 0x00000000, 0x00000000,
        0x00000000, 0x000002a0, 0xa6f820bf, 0x79492969, 0xf2b5d75f, 0x10c2e33c,
        0xc813cfe2, 0xe56baebe, 0x2185c678, 0x90279a85],
       (0xaa8588fb, 0xd9aa3c64, 0xa2744007, 0x6d9f18fa, 0x87a9803b))"
    by code_simp
  have r8: "sha1_rounds 8 8
      ([0x00000000, 0x00000000, 0x00000000, 0x00000000, 0x00000000, 0x00000000,
        0x00000000, 0x000002a0, 0xa6f820bf, 0x79492969, 0xf2b5d75f, 0x10c2e33c,
        0xc813cfe2, 0xe56baebe, 0x2185c678, 0x90279a85],
       (0xaa8588fb, 0xd9aa3c64, 0xa2744007, 0x6d9f18fa, 0x87a9803b)) =
      ([0xa6f820bf, 0x79492969, 0xf2b5d75f, 0x10c2e33c, 0xc813cfe2, 0xe56baebe,
        0x2185c678, 0x90279a85, 0x87271c02, 0xb199de22, 0xc5249bb4, 0x2fcbfe7d,
        0xf3142380, 0x409e6f54, 0x516c3175, 0x34f52598],
       (0x15ecb634, 0x86d71635, 0x7b353122, 0x1002cfbe, 0x6e862577))"
    by code_simp
  have r16: "sha1_rounds 8 16
      ([0xa6f820bf, 0x79492969, 0xf2b5d75f, 0x10c2e33c, 0xc813cfe2, 0xe56baebe,
        0x2185c678, 0x90279a85, 0x87271c02, 0xb199de22, 0xc5249bb4, 0x2fcbfe7d,
        0xf3142380, 0x409e6f54, 0x516c3175, 0x34f52598],
       (0x15ecb634, 0x86d71635, 0x7b353122, 0x1002cfbe, 0x6e862577)) =
      ([0x87271c02, 0xb199de22, 0xc5249bb4, 0x2fcbfe7d, 0xf3142380, 0x409e6f54,
        0x516c3175, 0x34f52598, 0x27e9096d, 0x12fc4a05, 0x96ef4d23, 0xfb177525,
        0x10fcc03e, 0x467a2c99, 0x19b33c54, 0x0b6f4202],
       (0xa3f27191, 0xa71bf798, 0xd8507090, 0x9404f246, 0x21cd4b01))"
    by code_simp
  have r24: "sha1_rounds 8 24
      ([0x87271c02, 0xb199de22, 0xc5249bb4, 0x2fcbfe7d, 0xf3142380, 0x409e6f54,
        0x516c3175, 0x34f52598, 0x27e9096d, 0x12fc4a05, 0x96ef4d23, 0xfb177525,
        0x10fcc03e, 0x467a2c99, 0x19b33c54, 0x0b6f4202],
       (0xa3f27191, 0xa71bf798, 0xd8507090, 0x9404f246, 0x21cd4b01)) =
      ([0x27e9096d, 0x12fc4a05, 0x96ef4d23, 0xfb177525, 0x10fcc03e, 0x467a2c99,
        0x19b33c54, 0x0b6f4202, 0x47214484, 0x2a3aac1d, 0x57616e2b, 0xa6c74111,
        0x317cfdad, 0xcae010fc, 0x93e28abb, 0x3835a064],
       (0x6c6b4c43, 0x7f84e4fb, 0x8a4d9826, 0x1b85d665, 0x335c3e47))"
    by code_simp
  have r32: "sha1_rounds 8 32
      ([0x27e9096d, 0x12fc4a05, 0x96ef4d23, 0xfb177525, 0x10fcc03e, 0x467a2c99,
        0x19b33c54, 0x0b6f4202, 0x47214484, 0x2a3aac1d, 0x57616e2b, 0xa6c74111,
        0x317cfdad, 0xcae010fc, 0x93e28abb, 0x3835a064],
       (0x6c6b4c43, 0x7f84e4fb, 0x8a4d9826, 0x1b85d665, 0x335c3e47)) =
      ([0x47214484, 0x2a3aac1d, 0x57616e2b, 0xa6c74111, 0x317cfdad, 0xcae010fc,
        0x93e28abb, 0x3835a064, 0x798e206c, 0xa066330c, 0xd28e86a5, 0xc4487182,
        0x30aa6597, 0xaaf7f184, 0x127107d2, 0x539457d8],
       (0xf70a6c49, 0x03ea9870, 0x8a6622de, 0xb1561711, 0x64580f89))"
    by code_simp
  have r40: "sha1_rounds 8 40
      ([0x47214484, 0x2a3aac1d, 0x57616e2b, 0xa6c74111, 0x317cfdad, 0xcae010fc,
        0x93e28abb, 0x3835a064, 0x798e206c, 0xa066330c, 0xd28e86a5, 0xc4487182,
        0x30aa6597, 0xaaf7f184, 0x127107d2, 0x539457d8],
       (0xf70a6c49, 0x03ea9870, 0x8a6622de, 0xb1561711, 0x64580f89)) =
      ([0x798e206c, 0xa066330c, 0xd28e86a5, 0xc4487182, 0x30aa6597, 0xaaf7f184,
        0x127107d2, 0x539457d8, 0x8673f68f, 0x7dd5b3a4, 0xce0e85f7, 0x5c39adc0,
        0xdfc3424b, 0x2c5989d7, 0x4848018b, 0x28090df6],
       (0x62100d3b, 0xe9f07fb4, 0x01e8b3e3, 0x96a18f91, 0x2d4d3173))"
    by code_simp
  have r48: "sha1_rounds 8 48
      ([0x798e206c, 0xa066330c, 0xd28e86a5, 0xc4487182, 0x30aa6597, 0xaaf7f184,
        0x127107d2, 0x539457d8, 0x8673f68f, 0x7dd5b3a4, 0xce0e85f7, 0x5c39adc0,
        0xdfc3424b, 0x2c5989d7, 0x4848018b, 0x28090df6],
       (0x62100d3b, 0xe9f07fb4, 0x01e8b3e3, 0x96a18f91, 0x2d4d3173)) =
      ([0x8673f68f, 0x7dd5b3a4, 0xce0e85f7, 0x5c39adc0, 0xdfc3424b, 0x2c5989d7,
        0x4848018b, 0x28090df6, 0x0255b322, 0xa367e142, 0x0846d666, 0x61a73dc8,
        0xbcff8298, 0xbaf9f3db, 0x7bdb9a3d, 0x756ed625],
       (0xbc93cfa0, 0xf23bc3df, 0x5a1f7fc1, 0x1ce402b9, 0xdffca70a))"
    by code_simp
  have r56: "sha1_rounds 8 56
      ([0x8673f68f, 0x7dd5b3a4, 0xce0e85f7, 0x5c39adc0, 0xdfc3424b, 0x2c5989d7,
        0x4848018b, 0x28090df6, 0x0255b322, 0xa367e142, 0x0846d666, 0x61a73dc8,
        0xbcff8298, 0xbaf9f3db, 0x7bdb9a3d, 0x756ed625],
       (0xbc93cfa0, 0xf23bc3df, 0x5a1f7fc1, 0x1ce402b9, 0xdffca70a)) =
      ([0x0255b322, 0xa367e142, 0x0846d666, 0x61a73dc8, 0xbcff8298, 0xbaf9f3db,
        0x7bdb9a3d, 0x756ed625, 0xe1a26703, 0xf2a0ca37, 0xd9cb8ffe, 0xe0cafdb9,
        0xb3a816df, 0xcec5f008, 0xa219aa5b, 0x9b50589c],
       (0x88cfca97, 0xfd36d1ea, 0x79274a39, 0x8f9d2eb1, 0x27f8170f))"
    by code_simp
  have r64: "sha1_rounds 8 64
      ([0x0255b322, 0xa367e142, 0x0846d666, 0x61a73dc8, 0xbcff8298, 0xbaf9f3db,
        0x7bdb9a3d, 0x756ed625, 0xe1a26703, 0xf2a0ca37, 0xd9cb8ffe, 0xe0cafdb9,
        0xb3a816df, 0xcec5f008, 0xa219aa5b, 0x9b50589c],
       (0x88cfca97, 0xfd36d1ea, 0x79274a39, 0x8f9d2eb1, 0x27f8170f)) =
      ([0xe1a26703, 0xf2a0ca37, 0xd9cb8ffe, 0xe0cafdb9, 0xb3a816df, 0xcec5f008,
        0xa219aa5b, 0x9b50589c, 0x4ae9e49e, 0x24f379cd, 0xec450739, 0xe2fbae68,
        0xa0feef6e, 0xda2fa59f, 0xb537f21b, 0x78c157c1],
       (0x00e86348, 0x74e8c80a, 0x67e67c27, 0x476eda23, 0x30cde702))"
    by code_simp
  have r72: "sha1_rounds 8 72
      ([0xe1a26703, 0xf2a0ca37, 0xd9cb8ffe, 0xe0cafdb9, 0xb3a816df, 0xcec5f008,
        0xa219aa5b, 0x9b50589c, 0x4ae9e49e, 0x24f379cd, 0xec450739, 0xe2fbae68,
        0xa0feef6e, 0xda2fa59f, 0xb537f21b, 0x78c157c1],
       (0x00e86348, 0x74e8c80a, 0x67e67c27, 0x476eda23, 0x30cde702)) =
      ([0x4ae9e49e, 0x24f379cd, 0xec450739, 0xe2fbae68, 0xa0feef6e, 0xda2fa59f,
        0xb537f21b, 0x78c157c1, 0x515f53f9, 0x075d78b1, 0xfdcf93b3, 0x3b57e041,
        0x6c2456b7, 0xe4eb3d70, 0xcd20b93e, 0x568c404f],
       (0xdfec64ba, 0xd69ad9b1, 0x038a65b4, 0x22b1c8ae, 0x55753935))"
    by code_simp
  show ?thesis
    by (simp only: sha1_block_def sched sha1_rounds_80 r0 r8 r16 r24 r32 r40 r48 r56 r64 r72 snd_conv sha1_add.simps)
       simp
qed

lemma kat_outer_hash:
  "sha1 [0x57, 0x57, 0x57, 0x57, 0x57, 0x57, 0x57, 0x57, 0x57, 0x57, 0x57, 0x57, 0x57,
         0x57, 0x57, 0x57, 0x57, 0x57, 0x57, 0x57, 0x5c, 0x5c, 0x5c, 0x5c, 0x5c, 0x5c,
         0x5c, 0x5c, 0x5c, 0x5c, 0x5c, 0x5c, 0x5c, 0x5c, 0x5c, 0x5c, 0x5c, 0x5c, 0x5c,
         0x5c, 0x5c, 0x5c, 0x5c, 0x5c, 0x5c, 0x5c, 0x5c, 0x5c, 0x5c, 0x5c, 0x5c, 0x5c,
         0x5c, 0x5c, 0x5c, 0x5c, 0x5c, 0x5c, 0x5c, 0x5c, 0x5c, 0x5c, 0x5c, 0x5c, 0x37,
         0x66, 0x37, 0xc8, 0x92, 0x3d, 0xc5, 0x95, 0xe4, 0x1a, 0x27, 0x97, 0x2e, 0x99,
         0x51, 0x21, 0x1d, 0x40, 0xce, 0x98] =
   [0xb6, 0x17, 0x31, 0x86, 0x55, 0x05, 0x72, 0x64, 0xe2, 0x8b, 0xc0, 0xb6, 0xfb, 0x37,
     0x8c, 0x8e, 0xf1, 0x46, 0xbe, 0x00]"
proof -
  have padded: "sha1_pad [0x57, 0x57, 0x57, 0x57, 0x57, 0x57, 0x57, 0x57, 0x57, 0x57,
                        0x57, 0x57, 0x57, 0x57, 0x57, 0x57, 0x57, 0x57, 0x57, 0x57,
                        0x5c, 0x5c, 0x5c, 0x5c, 0x5c, 0x5c, 0x5c, 0x5c, 0x5c, 0x5c,
                        0x5c, 0x5c, 0x5c, 0x5c, 0x5c, 0x5c, 0x5c, 0x5c, 0x5c, 0x5c,
                        0x5c, 0x5c, 0x5c, 0x5c, 0x5c, 0x5c, 0x5c, 0x5c, 0x5c, 0x5c,
                        0x5c, 0x5c, 0x5c, 0x5c, 0x5c, 0x5c, 0x5c, 0x5c, 0x5c, 0x5c,
                        0x5c, 0x5c, 0x5c, 0x5c, 0x37, 0x66, 0x37, 0xc8, 0x92, 0x3d,
                        0xc5, 0x95, 0xe4, 0x1a, 0x27, 0x97, 0x2e, 0x99, 0x51, 0x21,
                        0x1d, 0x40, 0xce, 0x98] =
      [0x57, 0x57, 0x57, 0x57, 0x57, 0x57, 0x57, 0x57, 0x57, 0x57, 0x57, 0x57, 0x57,
       0x57, 0x57, 0x57, 0x57, 0x57, 0x57, 0x57, 0x5c, 0x5c, 0x5c, 0x5c, 0x5c, 0x5c,
       0x5c, 0x5c, 0x5c, 0x5c, 0x5c, 0x5c, 0x5c, 0x5c, 0x5c, 0x5c, 0x5c, 0x5c, 0x5c,
       0x5c, 0x5c, 0x5c, 0x5c, 0x5c, 0x5c, 0x5c, 0x5c, 0x5c, 0x5c, 0x5c, 0x5c, 0x5c,
       0x5c, 0x5c, 0x5c, 0x5c, 0x5c, 0x5c, 0x5c, 0x5c, 0x5c, 0x5c, 0x5c, 0x5c, 0x37,
       0x66, 0x37, 0xc8, 0x92, 0x3d, 0xc5, 0x95, 0xe4, 0x1a, 0x27, 0x97, 0x2e, 0x99,
       0x51, 0x21, 0x1d, 0x40, 0xce, 0x98, 0x80, 0x00, 0x00, 0x00, 0x00, 0x00, 0x00,
       0x00, 0x00, 0x00, 0x00, 0x00, 0x00, 0x00, 0x00, 0x00, 0x00, 0x00, 0x00, 0x00,
       0x00, 0x00, 0x00, 0x00, 0x00, 0x00, 0x00, 0x00, 0x00, 0x00, 0x00, 0x00, 0x00,
       0x00, 0x00, 0x00, 0x00, 0x00, 0x00, 0x00, 0x00, 0x00, 0x02, 0xa0]"
    by code_simp
  have blocks: "length ([0x57, 0x57, 0x57, 0x57, 0x57, 0x57, 0x57, 0x57, 0x57, 0x57,
                          0x57, 0x57, 0x57, 0x57, 0x57, 0x57, 0x57, 0x57, 0x57, 0x57,
                          0x5c, 0x5c, 0x5c, 0x5c, 0x5c, 0x5c, 0x5c, 0x5c, 0x5c, 0x5c,
                          0x5c, 0x5c, 0x5c, 0x5c, 0x5c, 0x5c, 0x5c, 0x5c, 0x5c, 0x5c,
                          0x5c, 0x5c, 0x5c, 0x5c, 0x5c, 0x5c, 0x5c, 0x5c, 0x5c, 0x5c,
                          0x5c, 0x5c, 0x5c, 0x5c, 0x5c, 0x5c, 0x5c, 0x5c, 0x5c, 0x5c,
                          0x5c, 0x5c, 0x5c, 0x5c, 0x37, 0x66, 0x37, 0xc8, 0x92, 0x3d,
                          0xc5, 0x95, 0xe4, 0x1a, 0x27, 0x97, 0x2e, 0x99, 0x51, 0x21,
                          0x1d, 0x40, 0xce, 0x98, 0x80, 0x00, 0x00, 0x00, 0x00, 0x00,
                          0x00, 0x00, 0x00, 0x00, 0x00, 0x00, 0x00, 0x00, 0x00, 0x00,
                          0x00, 0x00, 0x00, 0x00, 0x00, 0x00, 0x00, 0x00, 0x00, 0x00,
                          0x00, 0x00, 0x00, 0x00, 0x00, 0x00, 0x00, 0x00, 0x00, 0x00,
                          0x00, 0x00, 0x00, 0x00, 0x00, 0x00, 0x02, 0xa0] :: u8 list) div 64 = 2"
    by code_simp
  have first: "take 64 ([0x57, 0x57, 0x57, 0x57, 0x57, 0x57, 0x57, 0x57, 0x57, 0x57,
                        0x57, 0x57, 0x57, 0x57, 0x57, 0x57, 0x57, 0x57, 0x57, 0x57,
                        0x5c, 0x5c, 0x5c, 0x5c, 0x5c, 0x5c, 0x5c, 0x5c, 0x5c, 0x5c,
                        0x5c, 0x5c, 0x5c, 0x5c, 0x5c, 0x5c, 0x5c, 0x5c, 0x5c, 0x5c,
                        0x5c, 0x5c, 0x5c, 0x5c, 0x5c, 0x5c, 0x5c, 0x5c, 0x5c, 0x5c,
                        0x5c, 0x5c, 0x5c, 0x5c, 0x5c, 0x5c, 0x5c, 0x5c, 0x5c, 0x5c,
                        0x5c, 0x5c, 0x5c, 0x5c, 0x37, 0x66, 0x37, 0xc8, 0x92, 0x3d,
                        0xc5, 0x95, 0xe4, 0x1a, 0x27, 0x97, 0x2e, 0x99, 0x51, 0x21,
                        0x1d, 0x40, 0xce, 0x98, 0x80, 0x00, 0x00, 0x00, 0x00, 0x00,
                        0x00, 0x00, 0x00, 0x00, 0x00, 0x00, 0x00, 0x00, 0x00, 0x00,
                        0x00, 0x00, 0x00, 0x00, 0x00, 0x00, 0x00, 0x00, 0x00, 0x00,
                        0x00, 0x00, 0x00, 0x00, 0x00, 0x00, 0x00, 0x00, 0x00, 0x00,
                        0x00, 0x00, 0x00, 0x00, 0x00, 0x00, 0x02, 0xa0] :: u8 list) =
      [0x57, 0x57, 0x57, 0x57, 0x57, 0x57, 0x57, 0x57, 0x57, 0x57, 0x57, 0x57, 0x57,
       0x57, 0x57, 0x57, 0x57, 0x57, 0x57, 0x57, 0x5c, 0x5c, 0x5c, 0x5c, 0x5c, 0x5c,
       0x5c, 0x5c, 0x5c, 0x5c, 0x5c, 0x5c, 0x5c, 0x5c, 0x5c, 0x5c, 0x5c, 0x5c, 0x5c,
       0x5c, 0x5c, 0x5c, 0x5c, 0x5c, 0x5c, 0x5c, 0x5c, 0x5c, 0x5c, 0x5c, 0x5c, 0x5c,
       0x5c, 0x5c, 0x5c, 0x5c, 0x5c, 0x5c, 0x5c, 0x5c, 0x5c, 0x5c, 0x5c, 0x5c]"
    by code_simp
  have second: "take 64 (drop 64 ([0x57, 0x57, 0x57, 0x57, 0x57, 0x57, 0x57, 0x57, 0x57,
                                  0x57, 0x57, 0x57, 0x57, 0x57, 0x57, 0x57, 0x57, 0x57,
                                  0x57, 0x57, 0x5c, 0x5c, 0x5c, 0x5c, 0x5c, 0x5c, 0x5c,
                                  0x5c, 0x5c, 0x5c, 0x5c, 0x5c, 0x5c, 0x5c, 0x5c, 0x5c,
                                  0x5c, 0x5c, 0x5c, 0x5c, 0x5c, 0x5c, 0x5c, 0x5c, 0x5c,
                                  0x5c, 0x5c, 0x5c, 0x5c, 0x5c, 0x5c, 0x5c, 0x5c, 0x5c,
                                  0x5c, 0x5c, 0x5c, 0x5c, 0x5c, 0x5c, 0x5c, 0x5c, 0x5c,
                                  0x5c, 0x37, 0x66, 0x37, 0xc8, 0x92, 0x3d, 0xc5, 0x95,
                                  0xe4, 0x1a, 0x27, 0x97, 0x2e, 0x99, 0x51, 0x21, 0x1d,
                                  0x40, 0xce, 0x98, 0x80, 0x00, 0x00, 0x00, 0x00, 0x00,
                                  0x00, 0x00, 0x00, 0x00, 0x00, 0x00, 0x00, 0x00, 0x00,
                                  0x00, 0x00, 0x00, 0x00, 0x00, 0x00, 0x00, 0x00, 0x00,
                                  0x00, 0x00, 0x00, 0x00, 0x00, 0x00, 0x00, 0x00, 0x00,
                                  0x00, 0x00, 0x00, 0x00, 0x00, 0x00, 0x00, 0x00, 0x00,
                                  0x02, 0xa0] :: u8 list)) =
      [0x37, 0x66, 0x37, 0xc8, 0x92, 0x3d, 0xc5, 0x95, 0xe4, 0x1a, 0x27, 0x97, 0x2e,
       0x99, 0x51, 0x21, 0x1d, 0x40, 0xce, 0x98, 0x80, 0x00, 0x00, 0x00, 0x00, 0x00,
       0x00, 0x00, 0x00, 0x00, 0x00, 0x00, 0x00, 0x00, 0x00, 0x00, 0x00, 0x00, 0x00,
       0x00, 0x00, 0x00, 0x00, 0x00, 0x00, 0x00, 0x00, 0x00, 0x00, 0x00, 0x00, 0x00,
       0x00, 0x00, 0x00, 0x00, 0x00, 0x00, 0x00, 0x00, 0x00, 0x00, 0x02, 0xa0]"
    by code_simp
  have out: "sha1_output (0xb6173186, 0x55057264, 0xe28bc0b6, 0xfb378c8e, 0xf146be00) =
      [0xb6, 0x17, 0x31, 0x86, 0x55, 0x05, 0x72, 0x64, 0xe2, 0x8b, 0xc0, 0xb6, 0xfb,
       0x37, 0x8c, 0x8e, 0xf1, 0x46, 0xbe, 0x00]"
    by code_simp
  show ?thesis
    by (simp only: sha1_def Let_def padded blocks sha1_blocks_2 first second sha1_init_def
          kat_outer_block_1 kat_outer_block_2 out)
qed

lemma kat_hmac_sha1: "hmac_sha1 kat_key kat_message = kat_digest"
proof -
  have inner: "map (\<lambda>b. b XOR 0x36) (hmac_key_block kat_key) @ kat_message =
      [0x3d, 0x3d, 0x3d, 0x3d, 0x3d, 0x3d, 0x3d, 0x3d, 0x3d, 0x3d, 0x3d, 0x3d, 0x3d,
       0x3d, 0x3d, 0x3d, 0x3d, 0x3d, 0x3d, 0x3d, 0x36, 0x36, 0x36, 0x36, 0x36, 0x36,
       0x36, 0x36, 0x36, 0x36, 0x36, 0x36, 0x36, 0x36, 0x36, 0x36, 0x36, 0x36, 0x36,
       0x36, 0x36, 0x36, 0x36, 0x36, 0x36, 0x36, 0x36, 0x36, 0x36, 0x36, 0x36, 0x36,
       0x36, 0x36, 0x36, 0x36, 0x36, 0x36, 0x36, 0x36, 0x36, 0x36, 0x36, 0x36, 0x48,
       0x69, 0x20, 0x54, 0x68, 0x65, 0x72, 0x65]"
    by code_simp
  have outer: "map (\<lambda>b. b XOR 0x5c) (hmac_key_block kat_key) @
      [0x37, 0x66, 0x37, 0xc8, 0x92, 0x3d, 0xc5, 0x95, 0xe4, 0x1a, 0x27, 0x97, 0x2e,
       0x99, 0x51, 0x21, 0x1d, 0x40, 0xce, 0x98] =
      [0x57, 0x57, 0x57, 0x57, 0x57, 0x57, 0x57, 0x57, 0x57, 0x57, 0x57, 0x57, 0x57,
       0x57, 0x57, 0x57, 0x57, 0x57, 0x57, 0x57, 0x5c, 0x5c, 0x5c, 0x5c, 0x5c, 0x5c,
       0x5c, 0x5c, 0x5c, 0x5c, 0x5c, 0x5c, 0x5c, 0x5c, 0x5c, 0x5c, 0x5c, 0x5c, 0x5c,
       0x5c, 0x5c, 0x5c, 0x5c, 0x5c, 0x5c, 0x5c, 0x5c, 0x5c, 0x5c, 0x5c, 0x5c, 0x5c,
       0x5c, 0x5c, 0x5c, 0x5c, 0x5c, 0x5c, 0x5c, 0x5c, 0x5c, 0x5c, 0x5c, 0x5c, 0x37,
       0x66, 0x37, 0xc8, 0x92, 0x3d, 0xc5, 0x95, 0xe4, 0x1a, 0x27, 0x97, 0x2e, 0x99,
       0x51, 0x21, 0x1d, 0x40, 0xce, 0x98]"
    by code_simp
  show ?thesis
    by (simp only: hmac_sha1_def hmac_digest_def inner kat_inner_hash outer kat_outer_hash
          kat_digest_def)
qed

section \<open>The known-answer test\<close>

lemma kat_engine_digest: "hmac_digest (hmac_key_block kat_key) kat_message = kat_digest"
  using kat_hmac_sha1 by (simp only: hmac_sha1_def)

text \<open>
  C1. Known-answer test. On any handle, \<^verbatim>\<open>srtp_hmac_init\<close> with the key of twenty bytes
  \<open>0x0b\<close>, then \<^verbatim>\<open>srtp_hmac_start\<close>, then \<^verbatim>\<open>srtp_hmac_compute\<close> with the message
  \<^verbatim>\<open>Hi There\<close> as the final segment and \<open>tag_len = 20\<close>: all three calls return
  \<^verbatim>\<open>srtp_err_status_ok\<close>, the first twenty bytes of the result buffer are
  \<^verbatim>\<open>b617318655057264e28bc0b6fb378c8ef146be00\<close>, and no other byte of the buffer is
  written.
\<close>

theorem known_answer_test:
  "(case srtp_hmac_init state0 kat_key of
      (status1, state1) \<Rightarrow>
        (case srtp_hmac_start state1 of
           (status2, state2) \<Rightarrow>
             (case srtp_hmac_compute state2 kat_message 20 result of
                (status3, state3, result') \<Rightarrow>
                  status1 = srtp_err_status_ok \<and>
                  status2 = srtp_err_status_ok \<and>
                  status3 = srtp_err_status_ok \<and>
                  map result' [0..<20] = kat_digest \<and>
                  (\<forall>j. result' (20 + j) = result (20 + j)))))"
proof -
  let ?bound = "\<lparr>key_block = Some (hmac_key_block kat_key), absorbed = [], finalized = False\<rparr>"
  let ?done = "\<lparr>key_block = Some (hmac_key_block kat_key), absorbed = kat_message,
                finalized = True\<rparr>"
  have bind: "srtp_hmac_init state0 kat_key = (srtp_err_status_ok, ?bound)"
    by (rule init_binds)
  have reset: "srtp_hmac_start ?bound = (srtp_err_status_ok, ?bound)"
    using start_keyed [of ?bound] by simp
  have final: "srtp_hmac_compute ?bound kat_message 20 result =
                 (srtp_err_status_ok, ?done, copy_hash_value 0 20 kat_digest result)"
    by (simp add: compute_cases kat_engine_digest)
  have len: "length kat_digest = 20"
    by (simp add: kat_digest_def)
  have tag: "map (copy_hash_value 0 20 kat_digest result) [0..<20] = kat_digest"
    using copied_prefix [of 20 kat_digest result] len by simp
  have frame: "\<forall>j. copy_hash_value 0 20 kat_digest result (20 + j) = result (20 + j)"
    by (simp add: copy_hash_value_at)
  show ?thesis
    by (simp only: bind reset final prod.case tag frame simp_thms)
qed

section \<open>Truncation and segmentation\<close>

text \<open>
  C2. Truncation law. From the same handle (the same key and the same message fed
  identically) and with the same final segment, for every \<open>t\<close> with \<open>0 \<le> t \<le> 20\<close>:
  when \<^verbatim>\<open>srtp_hmac_compute\<close> with \<open>tag_len = t\<close> and \<^verbatim>\<open>srtp_hmac_compute\<close> with
  \<open>tag_len = 20\<close> both return \<^verbatim>\<open>srtp_err_status_ok\<close>, the \<open>t\<close> result bytes of the first
  are the first \<open>t\<close> of the twenty result bytes of the second.
\<close>

theorem compute_truncation:
  "0 \<le> sint t \<Longrightarrow> sint t \<le> 20 \<Longrightarrow>
   srtp_hmac_compute statev message t result1 = (srtp_err_status_ok, state1, result1') \<Longrightarrow>
   srtp_hmac_compute statev message 20 result2 = (srtp_err_status_ok, state2, result2') \<Longrightarrow>
     map result1' [0..<nat (sint t)] = take (nat (sint t)) (map result2' [0..<20])"
  by (auto simp add: compute_cases copy_hash_value_at take_map split: if_splits)

theorem compute_truncation_witness:
  "0 \<le> sint (4 :: c_int) \<and> sint (4 :: c_int) \<le> 20 \<and>
   srtp_hmac_compute
     \<lparr>key_block = Some (hmac_key_block kat_key), absorbed = [], finalized = False\<rparr>
     kat_message 4 (\<lambda>i. 0) =
     (srtp_err_status_ok,
      \<lparr>key_block = Some (hmac_key_block kat_key), absorbed = kat_message, finalized = True\<rparr>,
      copy_hash_value 0 4 kat_digest (\<lambda>i. 0)) \<and>
   srtp_hmac_compute
     \<lparr>key_block = Some (hmac_key_block kat_key), absorbed = [], finalized = False\<rparr>
     kat_message 20 (\<lambda>i. 0) =
     (srtp_err_status_ok,
      \<lparr>key_block = Some (hmac_key_block kat_key), absorbed = kat_message, finalized = True\<rparr>,
      copy_hash_value 0 20 kat_digest (\<lambda>i. 0)) \<and>
   map (copy_hash_value 0 4 kat_digest (\<lambda>i. 0)) [0..<nat (sint (4 :: c_int))] =
     take (nat (sint (4 :: c_int))) (map (copy_hash_value 0 20 kat_digest (\<lambda>i. 0)) [0..<20])"
proof -
  let ?bound = "\<lparr>key_block = Some (hmac_key_block kat_key), absorbed = [], finalized = False\<rparr>"
  let ?done = "\<lparr>key_block = Some (hmac_key_block kat_key), absorbed = kat_message,
                finalized = True\<rparr>"
  have lo: "0 \<le> sint (4 :: c_int)" and hi: "sint (4 :: c_int) \<le> 20"
    by simp_all
  have short: "srtp_hmac_compute ?bound kat_message 4 (\<lambda>i. 0) =
                 (srtp_err_status_ok, ?done, copy_hash_value 0 4 kat_digest (\<lambda>i. 0))"
    by (simp add: compute_cases kat_engine_digest)
  have full: "srtp_hmac_compute ?bound kat_message 20 (\<lambda>i. 0) =
                (srtp_err_status_ok, ?done, copy_hash_value 0 20 kat_digest (\<lambda>i. 0))"
    by (simp add: compute_cases kat_engine_digest)
  note law = compute_truncation [OF lo hi short full]
  show ?thesis
    by (intro conjI lo hi short full law)
qed

text \<open>
  C3. Determinism under segmentation. For every handle, every \<open>tag_len\<close> and two ways of
  feeding the same bytes (segments passed to \<^verbatim>\<open>srtp_hmac_update\<close> in order, then a final
  segment passed to \<^verbatim>\<open>srtp_hmac_compute\<close>), \<^verbatim>\<open>srtp_hmac_compute\<close> returns the same status
  and leaves the same bytes in the result buffer; and on a handle with a bound key and a
  running computation every update returns \<^verbatim>\<open>srtp_err_status_ok\<close>.
\<close>

theorem compute_independent_of_segmentation:
  "concat segs1 @ final1 = concat segs2 @ final2 \<Longrightarrow>
     fst (srtp_hmac_compute (snd (srtp_hmac_update_all statev segs1)) final1 tag_len result) =
       fst (srtp_hmac_compute (snd (srtp_hmac_update_all statev segs2)) final2 tag_len result) \<and>
     snd (snd (srtp_hmac_compute (snd (srtp_hmac_update_all statev segs1)) final1 tag_len result)) =
       snd (snd (srtp_hmac_compute (snd (srtp_hmac_update_all statev segs2)) final2 tag_len result)) \<and>
     (key_block statev \<noteq> None \<and> \<not> finalized statev \<longrightarrow>
        fst (srtp_hmac_update_all statev segs1) = srtp_err_status_ok \<and>
        fst (srtp_hmac_update_all statev segs2) = srtp_err_status_ok)"
proof (cases "key_block statev = None \<or> finalized statev")
  case True
  then show ?thesis
    by (auto simp add: update_all_refused compute_cases)
next
  case False
  then obtain k0 where keyed: "key_block statev = Some k0" and running: "\<not> finalized statev"
    by auto
  assume "concat segs1 @ final1 = concat segs2 @ final2"
  then have "absorbed statev @ concat segs1 @ final1 = absorbed statev @ concat segs2 @ final2"
    by simp
  then show ?thesis
    using keyed running by (simp add: update_all_started compute_cases)
qed

text \<open>
  The instance of the specification: \<^verbatim>\<open>abc\<close> then \<^verbatim>\<open>def\<close> in two updates against
  \<^verbatim>\<open>abcdef\<close> in one, each followed by an empty final segment.
\<close>

theorem compute_independent_of_segmentation_witness:
  "concat [[0x61, 0x62, 0x63], [0x64, 0x65, 0x66 :: u8]] @ [] =
     concat [[0x61, 0x62, 0x63, 0x64, 0x65, 0x66]] @ [] \<and>
   fst (srtp_hmac_compute
          (snd (srtp_hmac_update_all
             \<lparr>key_block = Some (hmac_key_block kat_key), absorbed = [], finalized = False\<rparr>
             [[0x61, 0x62, 0x63], [0x64, 0x65, 0x66]])) [] 10 (\<lambda>i. 0)) =
     fst (srtp_hmac_compute
          (snd (srtp_hmac_update_all
             \<lparr>key_block = Some (hmac_key_block kat_key), absorbed = [], finalized = False\<rparr>
             [[0x61, 0x62, 0x63, 0x64, 0x65, 0x66]])) [] 10 (\<lambda>i. 0)) \<and>
   snd (snd (srtp_hmac_compute
          (snd (srtp_hmac_update_all
             \<lparr>key_block = Some (hmac_key_block kat_key), absorbed = [], finalized = False\<rparr>
             [[0x61, 0x62, 0x63], [0x64, 0x65, 0x66]])) [] 10 (\<lambda>i. 0))) =
     snd (snd (srtp_hmac_compute
          (snd (srtp_hmac_update_all
             \<lparr>key_block = Some (hmac_key_block kat_key), absorbed = [], finalized = False\<rparr>
             [[0x61, 0x62, 0x63, 0x64, 0x65, 0x66]])) [] 10 (\<lambda>i. 0))) \<and>
   key_block \<lparr>key_block = Some (hmac_key_block kat_key), absorbed = [], finalized = False\<rparr> \<noteq>
     None \<and>
   \<not> finalized \<lparr>key_block = Some (hmac_key_block kat_key), absorbed = [], finalized = False\<rparr> \<and>
   fst (srtp_hmac_update_all
          \<lparr>key_block = Some (hmac_key_block kat_key), absorbed = [], finalized = False\<rparr>
          [[0x61, 0x62, 0x63], [0x64, 0x65, 0x66]]) = srtp_err_status_ok \<and>
   fst (srtp_hmac_update_all
          \<lparr>key_block = Some (hmac_key_block kat_key), absorbed = [], finalized = False\<rparr>
          [[0x61, 0x62, 0x63, 0x64, 0x65, 0x66]]) = srtp_err_status_ok"
proof -
  let ?bound = "\<lparr>key_block = Some (hmac_key_block kat_key), absorbed = [], finalized = False\<rparr>"
  have keyed: "key_block ?bound \<noteq> None"
    by simp
  have running: "\<not> finalized ?bound"
    by simp
  have same: "concat [[0x61, 0x62, 0x63], [0x64, 0x65, 0x66 :: u8]] @ [] =
                concat [[0x61, 0x62, 0x63, 0x64, 0x65, 0x66]] @ []"
    by simp
  note split = compute_independent_of_segmentation [OF same, of ?bound 10 "\<lambda>i. 0"]
  have fed: "fst (srtp_hmac_update_all ?bound [[0x61, 0x62, 0x63], [0x64, 0x65, 0x66]]) =
               srtp_err_status_ok \<and>
             fst (srtp_hmac_update_all ?bound [[0x61, 0x62, 0x63, 0x64, 0x65, 0x66]]) =
               srtp_err_status_ok"
    using split keyed running by blast
  show ?thesis
    by (intro conjI same split [THEN conjunct1] split [THEN conjunct2, THEN conjunct1]
          keyed running fed [THEN conjunct1] fed [THEN conjunct2])
qed

section \<open>Allocation and release\<close>

text \<open>
  C5. For every \<open>key_len\<close> and every \<open>out_len > 20\<close>, \<^verbatim>\<open>srtp_hmac_alloc\<close> returns
  \<^verbatim>\<open>srtp_err_status_bad_param\<close> and leaves no allocated context: memory is unchanged
  (nothing was allocated) and \<^verbatim>\<open>*a\<close> keeps the value it had.
\<close>

theorem alloc_out_len_too_large:
  "20 < sint out_len' \<Longrightarrow>
     srtp_hmac_alloc m a key_len' out_len' = (srtp_err_status_bad_param, m, a)"
  by (simp add: srtp_hmac_alloc_def SHA1_DIGEST_SIZE_def)

theorem alloc_out_len_too_large_witness:
  "20 < sint (21 :: c_int) \<and>
   srtp_hmac_alloc
     \<lparr>auth_avail = [1], auth_live = Map.empty, auth_released = Map.empty,
      ctx_avail = [2], ctx_live = Map.empty, ctx_released = Map.empty\<rparr> None 20 21 =
     (srtp_err_status_bad_param,
      \<lparr>auth_avail = [1], auth_live = Map.empty, auth_released = Map.empty,
       ctx_avail = [2], ctx_live = Map.empty, ctx_released = Map.empty\<rparr>, None)"
  using alloc_out_len_too_large [of 21
      "\<lparr>auth_avail = [1], auth_live = Map.empty, auth_released = Map.empty,
        ctx_avail = [2], ctx_live = Map.empty, ctx_released = Map.empty\<rparr>" None 20]
  by simp

text \<open>
  C6, as the claim states it, fails: with \<open>out_len = 10\<close> and an allocator that has
  nothing left, \<^verbatim>\<open>srtp_crypto_alloc\<close> returns \<^verbatim>\<open>NULL\<close> and \<^verbatim>\<open>srtp_hmac_alloc\<close> returns
  \<^verbatim>\<open>srtp_err_status_alloc_fail\<close> with \<^verbatim>\<open>*a\<close> set to \<^verbatim>\<open>NULL\<close>.
\<close>

theorem alloc_exhausted_counterexample:
  "sint (10 :: c_int) \<le> 20 \<and>
   srtp_hmac_alloc
     \<lparr>auth_avail = [], auth_live = Map.empty, auth_released = Map.empty,
      ctx_avail = [7], ctx_live = Map.empty, ctx_released = Map.empty\<rparr> None 20 10 =
     (srtp_err_status_alloc_fail,
      \<lparr>auth_avail = [], auth_live = Map.empty, auth_released = Map.empty,
       ctx_avail = [7], ctx_live = Map.empty, ctx_released = Map.empty\<rparr>, None)"
  by (simp add: srtp_hmac_alloc_def SHA1_DIGEST_SIZE_def srtp_crypto_alloc_def)

text \<open>
  C6, amended. For every \<open>key_len\<close> and every \<open>out_len \<le> 20\<close>, when
  \<^verbatim>\<open>srtp_crypto_alloc\<close> and \<^verbatim>\<open>HMAC_CTX_new\<close> both return memory, \<^verbatim>\<open>srtp_hmac_alloc\<close>
  returns \<^verbatim>\<open>srtp_err_status_ok\<close> and \<^verbatim>\<open>*a\<close> points to a context whose \<open>key_len\<close> and
  \<open>out_len\<close> are the inputs, whose \<open>prefix_len\<close> is 0, whose type is \<^verbatim>\<open>srtp_hmac\<close> and whose
  state is a fresh, key-less engine handle.
\<close>

theorem alloc_succeeds_when_memory_available:
  "sint out_len' \<le> 20 \<Longrightarrow> auth_avail m = p # ps \<Longrightarrow> ctx_avail m = c # cs \<Longrightarrow>
     (\<exists>m'. srtp_hmac_alloc m a key_len' out_len' = (srtp_err_status_ok, m', Some p) \<and>
        auth_live m' p =
          Some \<lparr>auth_type = Some srtp_hmac, state = Some c, out_len = out_len',
                key_len = key_len', prefix_len = 0\<rparr> \<and>
        ctx_live m' c = Some HMAC_CTX_fresh)"
  by (simp add: srtp_hmac_alloc_def SHA1_DIGEST_SIZE_def srtp_crypto_alloc_def HMAC_CTX_new_def
        auth_store_def zero_auth_def)

theorem alloc_succeeds_when_memory_available_witness:
  "sint (10 :: c_int) \<le> 20 \<and>
   (\<exists>m'. srtp_hmac_alloc
       \<lparr>auth_avail = [3], auth_live = Map.empty, auth_released = Map.empty,
        ctx_avail = [7], ctx_live = Map.empty, ctx_released = Map.empty\<rparr> None 20 10 =
       (srtp_err_status_ok, m', Some 3) \<and>
      auth_live m' 3 =
        Some \<lparr>auth_type = Some srtp_hmac, state = Some 7, out_len = 10,
              key_len = 20, prefix_len = 0\<rparr> \<and>
      ctx_live m' 7 = Some HMAC_CTX_fresh)"
  using alloc_succeeds_when_memory_available [of 10
      "\<lparr>auth_avail = [3], auth_live = Map.empty, auth_released = Map.empty,
        ctx_avail = [7], ctx_live = Map.empty, ctx_released = Map.empty\<rparr>" 3 "[]" 7 "[]" None 20]
  by simp




section \<open>The key and the running computation\<close>

text \<open>
  C7. \<^verbatim>\<open>srtp_hmac_start\<close> never rebinds the key. Let the key be bound by
  \<^verbatim>\<open>srtp_hmac_init\<close>, followed by any calls of \<^verbatim>\<open>srtp_hmac_start\<close>, \<^verbatim>\<open>srtp_hmac_update\<close> and
  \<^verbatim>\<open>srtp_hmac_compute\<close> (no other \<^verbatim>\<open>srtp_hmac_init\<close>). The handle still holds the key
  block of that key; \<^verbatim>\<open>srtp_hmac_start\<close> returns \<^verbatim>\<open>srtp_err_status_ok\<close> and changes the
  handle only by resetting the running computation to the empty message; and the
  update and compute calls that follow return \<^verbatim>\<open>srtp_err_status_ok\<close> and produce, for
  \<open>0 \<le> tag_len \<le> 20\<close>, the first \<open>tag_len\<close> bytes of the HMAC-SHA1 of the bytes fed
  under the key that \<^verbatim>\<open>srtp_hmac_init\<close> bound.
\<close>

theorem start_retains_key:
  assumes "srtp_hmac_init state0 key = (srtp_err_status_ok, state1)"
    and "statev = foldl after_call state1 calls"
    and "0 \<le> sint tag_len" and "sint tag_len \<le> 20"
  shows "key_block statev = Some (hmac_key_block key) \<and>
    srtp_hmac_start statev =
      (srtp_err_status_ok, statev\<lparr>absorbed := [], finalized := False\<rparr>) \<and>
    fst (srtp_hmac_update_all (snd (srtp_hmac_start statev)) segs) = srtp_err_status_ok \<and>
    fst (srtp_hmac_compute (snd (srtp_hmac_update_all (snd (srtp_hmac_start statev)) segs))
           final tag_len result) = srtp_err_status_ok \<and>
    map (snd (snd (srtp_hmac_compute
           (snd (srtp_hmac_update_all (snd (srtp_hmac_start statev)) segs))
           final tag_len result))) [0..<nat (sint tag_len)] =
      take (nat (sint tag_len)) (hmac_sha1 key (concat segs @ final))"
proof -
  let ?started = "statev\<lparr>absorbed := [], finalized := False\<rparr>"
  have "key_block state1 = Some (hmac_key_block key)"
    using assms(1) by (auto simp add: init_binds)
  then have keyed: "key_block statev = Some (hmac_key_block key)"
    using assms(2) by (simp add: key_block_after_calls)
  have reset: "srtp_hmac_start statev = (srtp_err_status_ok, ?started)"
    using keyed by (rule start_keyed)
  have fed: "srtp_hmac_update_all ?started segs =
               (srtp_err_status_ok, ?started\<lparr>absorbed := concat segs\<rparr>)"
    using update_all_started [of ?started "hmac_key_block key" segs] keyed by simp
  have unsigned: "\<not> (20 :: 32 word) < tag_len"
    using assms(3,4) by (rule small_int_as_unsigned)
  have final: "srtp_hmac_compute (?started\<lparr>absorbed := concat segs\<rparr>) final tag_len result =
      (srtp_err_status_ok,
       ?started\<lparr>absorbed := concat segs @ final, finalized := True\<rparr>,
       copy_hash_value 0 (sint tag_len) (hmac_sha1 key (concat segs @ final)) result)"
    using keyed assms(4) unsigned by (simp add: compute_cases hmac_sha1_def)
  have tag: "map (copy_hash_value 0 (sint tag_len) (hmac_sha1 key (concat segs @ final)) result)
               [0..<nat (sint tag_len)] =
             take (nat (sint tag_len)) (hmac_sha1 key (concat segs @ final))"
    using assms(3,4) by (intro copied_prefix) (simp_all add: hmac_sha1_def length_hmac_digest)
  show ?thesis
    by (simp only: keyed reset fed final tag fst_conv snd_conv simp_thms)
qed

theorem start_retains_key_witness:
  "srtp_hmac_init HMAC_CTX_fresh kat_key =
     (srtp_err_status_ok,
      \<lparr>key_block = Some (hmac_key_block kat_key), absorbed = [], finalized = False\<rparr>) \<and>
   0 \<le> sint (10 :: c_int) \<and> sint (10 :: c_int) \<le> 20 \<and>
   key_block (foldl after_call
       \<lparr>key_block = Some (hmac_key_block kat_key), absorbed = [], finalized = False\<rparr>
       [Start, Update [1, 2], Compute [3] 20, Start, Update [4]]) =
     Some (hmac_key_block kat_key) \<and>
   fst (srtp_hmac_start (foldl after_call
       \<lparr>key_block = Some (hmac_key_block kat_key), absorbed = [], finalized = False\<rparr>
       [Start, Update [1, 2], Compute [3] 20, Start, Update [4]])) = srtp_err_status_ok \<and>
   absorbed (snd (srtp_hmac_start (foldl after_call
       \<lparr>key_block = Some (hmac_key_block kat_key), absorbed = [], finalized = False\<rparr>
       [Start, Update [1, 2], Compute [3] 20, Start, Update [4]]))) = [] \<and>
   map (snd (snd (srtp_hmac_compute
          (snd (srtp_hmac_update_all (snd (srtp_hmac_start (foldl after_call
             \<lparr>key_block = Some (hmac_key_block kat_key), absorbed = [], finalized = False\<rparr>
             [Start, Update [1, 2], Compute [3] 20, Start, Update [4]])))
             [[0x48, 0x69], [0x20, 0x54, 0x68]]))
          [0x65, 0x72, 0x65] 10 (\<lambda>i. 0)))) [0..<nat (sint (10 :: c_int))] =
     take (nat (sint (10 :: c_int)))
       (hmac_sha1 kat_key (concat [[0x48, 0x69], [0x20, 0x54, 0x68]] @ [0x65, 0x72, 0x65]))"
proof -
  let ?bound = "\<lparr>key_block = Some (hmac_key_block kat_key), absorbed = [], finalized = False\<rparr>"
  let ?calls = "[Start, Update [1, 2], Compute [3] 20, Start, Update [4]]"
  have bind: "srtp_hmac_init HMAC_CTX_fresh kat_key = (srtp_err_status_ok, ?bound)"
    by (rule init_binds)
  have lo: "0 \<le> sint (10 :: c_int)" and hi: "sint (10 :: c_int) \<le> 20"
    by simp_all
  note kept = start_retains_key [OF bind refl lo hi,
      of ?calls "[[0x48, 0x69], [0x20, 0x54, 0x68]]" "[0x65, 0x72, 0x65]" "\<lambda>i. 0"]
  have status: "fst (srtp_hmac_start (foldl after_call ?bound ?calls)) = srtp_err_status_ok"
    using kept by simp
  have empty: "absorbed (snd (srtp_hmac_start (foldl after_call ?bound ?calls))) = []"
    using kept by simp
  show ?thesis
    by (intro conjI bind lo hi status empty kept [THEN conjunct1]
          kept [THEN conjunct2, THEN conjunct2, THEN conjunct2, THEN conjunct2])
qed

section \<open>The result buffer\<close>

text \<open>
  C4. For every engine state, message and result buffer, and every \<open>tag_len > 20\<close>,
  \<^verbatim>\<open>srtp_hmac_compute\<close> returns \<^verbatim>\<open>srtp_err_status_bad_param\<close> before any engine call: the
  handle is returned as it was given (nothing absorbed, nothing finalized) and the
  result buffer is returned as it was given.
\<close>

theorem compute_tag_len_too_large:
  "20 < sint tag_len \<Longrightarrow>
     srtp_hmac_compute statev message tag_len result = (srtp_err_status_bad_param, statev, result)"
  by (simp add: srtp_hmac_compute_def SHA1_DIGEST_SIZE_def)

theorem compute_tag_len_too_large_witness:
  "20 < sint (21 :: c_int) \<and>
   srtp_hmac_compute HMAC_CTX_fresh [1, 2, 3] 21 (\<lambda>i. 0) =
     (srtp_err_status_bad_param, HMAC_CTX_fresh, \<lambda>i. 0)"
  using compute_tag_len_too_large [of 21 HMAC_CTX_fresh "[1, 2, 3]" "\<lambda>i. 0"] by simp

text \<open>
  C9. Frame of the result buffer. Whenever \<^verbatim>\<open>srtp_hmac_compute\<close> returns
  \<^verbatim>\<open>srtp_err_status_ok\<close>, the byte at every index below \<open>tag_len\<close> is the byte of the
  native digest (the HMAC of the bytes absorbed, final segment included) at that index,
  and the byte at every other index is unchanged; whenever it returns another status,
  the result buffer is unchanged.
\<close>

theorem compute_result_frame:
  "srtp_hmac_compute statev message tag_len result = (status, state', result') \<Longrightarrow>
     (status = srtp_err_status_ok \<longrightarrow>
        (\<forall>j. result' j =
           (if int j < sint tag_len
            then hmac_digest (the (key_block statev)) (absorbed statev @ message) ! j
            else result j))) \<and>
     (status \<noteq> srtp_err_status_ok \<longrightarrow> result' = result)"
  by (auto simp add: compute_cases copy_hash_value_at split: if_splits)

theorem compute_result_frame_witness:
  "srtp_hmac_compute
     \<lparr>key_block = Some (hmac_key_block kat_key), absorbed = [], finalized = False\<rparr>
     kat_message 4 (\<lambda>i. 0xff) =
     (srtp_err_status_ok,
      \<lparr>key_block = Some (hmac_key_block kat_key), absorbed = kat_message, finalized = True\<rparr>,
      copy_hash_value 0 4 kat_digest (\<lambda>i. 0xff)) \<and>
   (\<forall>j. copy_hash_value 0 4 kat_digest (\<lambda>i. 0xff) j =
      (if int j < 4 then kat_digest ! j else 0xff)) \<and>
   srtp_hmac_compute HMAC_CTX_fresh kat_message 4 (\<lambda>i. 0xff) =
     (srtp_err_status_auth_fail, HMAC_CTX_fresh, \<lambda>i. 0xff)"
proof -
  let ?bound = "\<lparr>key_block = Some (hmac_key_block kat_key), absorbed = [], finalized = False\<rparr>"
  let ?done = "\<lparr>key_block = Some (hmac_key_block kat_key), absorbed = kat_message,
                finalized = True\<rparr>"
  have run: "srtp_hmac_compute ?bound kat_message 4 (\<lambda>i. 0xff) =
               (srtp_err_status_ok, ?done, copy_hash_value 0 4 kat_digest (\<lambda>i. 0xff))"
    by (simp add: compute_cases kat_engine_digest)
  have refused: "srtp_hmac_compute HMAC_CTX_fresh kat_message 4 (\<lambda>i. 0xff) =
                   (srtp_err_status_auth_fail, HMAC_CTX_fresh, \<lambda>i. 0xff)"
    by (simp add: compute_cases HMAC_CTX_fresh_def)
  have written: "\<forall>j. copy_hash_value 0 4 kat_digest (\<lambda>i. 0xff) j =
                   (if int j < 4 then kat_digest ! j else 0xff)"
    using compute_result_frame [OF run] by (simp add: kat_engine_digest)
  have "(\<lambda>i. 0xff :: u8) = (\<lambda>i. 0xff)"
    using compute_result_frame [OF refused] by simp
  then show ?thesis
    using run written refused by (intro conjI)
qed

text \<open>
  C10. For every negative \<open>tag_len\<close>, \<^verbatim>\<open>srtp_hmac_compute\<close> does not return
  \<^verbatim>\<open>srtp_err_status_bad_param\<close>: the guard rejects only \<open>tag_len > 20\<close>. On a handle with
  a bound key and a running computation the final segment is absorbed and the digest
  finalized; the comparison of the unsigned length 20 with \<open>tag_len\<close> then reads the
  negative \<open>tag_len\<close> as a large unsigned value, and the call returns
  \<^verbatim>\<open>srtp_err_status_auth_fail\<close>. On any other handle the engine refuses the final segment
  and the call returns \<^verbatim>\<open>srtp_err_status_auth_fail\<close> as well. In both cases the result
  buffer is returned as it was given.
\<close>

theorem compute_negative_tag_len:
  "sint tag_len < 0 \<Longrightarrow>
     srtp_hmac_compute statev message tag_len result =
       (srtp_err_status_auth_fail,
        (if key_block statev = None \<or> finalized statev then statev
         else statev\<lparr>absorbed := absorbed statev @ message, finalized := True\<rparr>),
        result)"
  by (simp add: compute_cases negative_int_as_unsigned)

theorem compute_negative_tag_len_witness:
  "sint (- 1 :: c_int) < 0 \<and>
   srtp_hmac_compute
     \<lparr>key_block = Some (hmac_key_block kat_key), absorbed = [], finalized = False\<rparr>
     kat_message (- 1) (\<lambda>i. 0) =
     (srtp_err_status_auth_fail,
      \<lparr>key_block = Some (hmac_key_block kat_key), absorbed = kat_message, finalized = True\<rparr>,
      \<lambda>i. 0)"
proof -
  have neg: "sint (- 1 :: c_int) < 0"
    by simp
  show ?thesis
    using compute_negative_tag_len [OF neg,
        of "\<lparr>key_block = Some (hmac_key_block kat_key), absorbed = [], finalized = False\<rparr>"
          kat_message "\<lambda>i. 0"] neg
    by simp
qed

end
